theory Spec2Isabelle
  imports Main "HOL-Library.Word" "HOL-Library.Multiset"
begin

section \<open>Extended statistics commands: \<^verbatim>\<open>src/backend/commands/statscmds.c\<close>\<close>

text \<open>
  A shallow embedding of \<^verbatim>\<open>CreateStatistics\<close> and \<^verbatim>\<open>RemoveStatisticsById\<close>.
  The two C functions run against the shared catalog; here the catalog relation
  \<^verbatim>\<open>pg_statistic_ext\<close> is a list of rows carried in an explicit state, every other
  state-changing call to a collaborator is appended, in program order, to a trace, and
  \<^verbatim>\<open>ereport(ERROR, ...)\<close> / \<^verbatim>\<open>elog(ERROR, ...)\<close> become the \<open>Inl\<close> branch of a sum:
  an ERROR aborts the statement and the transaction rolls its effects back, so no state
  is returned with it.
\<close>

subsection \<open>Data model\<close>

type_synonym Oid = "32 word"
type_synonym int16 = "16 word"
type_synonym bytea = "8 word list"

text \<open>
  Modelled from the spec: \<^verbatim>\<open>InvalidOid\<close> (postgres_ext.h) and \<^verbatim>\<open>InvalidObjectAddress\<close>
  (catalog/objectaddress.h) are declared outside the source file. \<^verbatim>\<open>InvalidOid\<close> is the
  zero identifier, and the invalid object address is the one whose three fields are
  zero (claim C9 describes it so).
\<close>

definition InvalidOid :: Oid where
  "InvalidOid = 0"

record ObjectAddress =
  classId :: Oid
  objectId :: Oid
  objectSubId :: int

definition InvalidObjectAddress :: ObjectAddress where
  "InvalidObjectAddress = \<lparr>classId = InvalidOid, objectId = InvalidOid, objectSubId = 0\<rparr>"

text \<open>The macro \<^verbatim>\<open>ObjectAddressSet(addr, class_id, object_id)\<close>.\<close>

definition ObjectAddressSet :: "Oid \<Rightarrow> Oid \<Rightarrow> ObjectAddress" where
  "ObjectAddressSet class_id object_id =
     \<lparr>classId = class_id, objectId = object_id, objectSubId = 0\<rparr>"

datatype relkind =
    RELKIND_RELATION | RELKIND_INDEX | RELKIND_SEQUENCE | RELKIND_TOASTVALUE
  | RELKIND_VIEW | RELKIND_COMPOSITE_TYPE | RELKIND_FOREIGN_TABLE
  | RELKIND_MATVIEW | RELKIND_PARTITIONED_TABLE

datatype stats_kind = STATS_EXT_NDISTINCT | STATS_EXT_DEPENDENCIES

datatype DependencyType =
    DEPENDENCY_NORMAL | DEPENDENCY_AUTO | DEPENDENCY_INTERNAL
  | DEPENDENCY_EXTENSION | DEPENDENCY_PIN

datatype LOCKMODE =
    NoLock | AccessShareLock | RowShareLock | RowExclusiveLock
  | ShareUpdateExclusiveLock | ShareLock | ShareRowExclusiveLock
  | ExclusiveLock | AccessExclusiveLock

datatype errcode =
    ERRCODE_DUPLICATE_OBJECT | ERRCODE_WRONG_OBJECT_TYPE | ERRCODE_UNDEFINED_COLUMN
  | ERRCODE_FEATURE_NOT_SUPPORTED | ERRCODE_TOO_MANY_COLUMNS
  | ERRCODE_INVALID_OBJECT_DEFINITION | ERRCODE_DUPLICATE_COLUMN
  | ERRCODE_SYNTAX_ERROR | ERRCODE_UNDEFINED_TABLE | ERRCODE_UNDEFINED_SCHEMA
  | ERRCODE_INSUFFICIENT_PRIVILEGE | ERRCODE_INVALID_PARAMETER_VALUE

text \<open>Arguments of a message format: \<^verbatim>\<open>%s\<close>, \<^verbatim>\<open>%d\<close> and \<^verbatim>\<open>%u\<close>.\<close>

datatype fmtarg = S string | D nat | U Oid

text \<open>
  What stops the statement: \<^verbatim>\<open>ereport(ERROR, (errcode(c), errmsg(fmt, args)))\<close>,
  \<^verbatim>\<open>elog(ERROR, fmt, args)\<close> (an internal error, with no error code of its own), or a
  failed \<^verbatim>\<open>Assert\<close> in a build that checks assertions.
\<close>

datatype error =
    Ereport errcode string "fmtarg list"
  | Elog string "fmtarg list"
  | FailedAssertion string

text \<open>A row of \<^verbatim>\<open>pg_statistic_ext\<close>; a column whose \<^verbatim>\<open>nulls[]\<close> flag is set is \<open>None\<close>.\<close>

record pg_statistic_ext =
  oid :: Oid
  stxrelid :: Oid
  stxname :: string
  stxnamespace :: Oid
  stxowner :: Oid
  stxkeys :: "int16 list"
  stxkind :: "stats_kind list"
  stxndistinct :: "bytea option"
  stxdependencies :: "bytea option"

text \<open>The fields of \<^verbatim>\<open>pg_attribute\<close>, of the type cache entry and of the relation
  descriptor that the code reads.\<close>

record pg_attribute =
  attnum :: int16
  atttypid :: Oid

record TypeCacheEntry =
  lt_opr :: Oid

record Relation =
  rd_id :: Oid
  rd_relkind :: relkind
  rd_relname :: string

record RangeVar =
  schemaname :: "string option"
  relname :: string

datatype Value = Integer int | String string

record DefElem =
  defname :: string
  arg :: "Value option"

record CreateStatsStmt =
  defnames :: "string list"
  keys :: "string list"
  relation :: RangeVar
  options :: "DefElem list"
  if_not_exists :: bool

text \<open>
  The calls that change something outside the function, in the order they are made.
  \<^verbatim>\<open>relation_openrv\<close> and \<^verbatim>\<open>heap_open\<close> take a lock, \<^verbatim>\<open>relation_close\<close> and
  \<^verbatim>\<open>heap_close\<close> with a lock mode other than \<^verbatim>\<open>NoLock\<close> release it.
\<close>

datatype event =
    NOTICE errcode string "fmtarg list"
  | LockRelation Oid LOCKMODE
  | UnlockRelation Oid LOCKMODE
  | CatalogTupleInsert pg_statistic_ext
  | simple_heap_delete pg_statistic_ext
  | CacheInvalidateRelcache Oid
  | recordDependencyOn ObjectAddress ObjectAddress DependencyType

record state =
  StatisticExtRelation :: "pg_statistic_ext list"
  trace :: "event list"

text \<open>
  What the source uses and does not define, taken as parameters: the compile-time
  constants \<^verbatim>\<open>STATS_MAX_DIMENSIONS\<close> and \<^verbatim>\<open>USE_ASSERT_CHECKING\<close>, the catalog
  identifiers, and the collaborators (name resolution, relation and attribute lookup,
  the type cache, option parsing, the current user and the identifier handed out by the
  catalog insert). A collaborator that can raise returns a sum.
\<close>

record env =
  STATS_MAX_DIMENSIONS :: nat
  USE_ASSERT_CHECKING :: bool
  StatisticExtRelationId :: Oid
  RelationRelationId :: Oid
  NamespaceRelationId :: Oid
  QualifiedNameGetCreationNamespace :: "string list \<Rightarrow> error + (Oid \<times> string)"
  namestrcpy :: "string \<Rightarrow> string"
  relation_openrv :: "RangeVar \<Rightarrow> LOCKMODE \<Rightarrow> error + Relation"
  SearchSysCacheAttName :: "Oid \<Rightarrow> string \<Rightarrow> pg_attribute option"
  lookup_type_cache :: "Oid \<Rightarrow> TypeCacheEntry"
  defGetBoolean :: "DefElem \<Rightarrow> error + bool"
  GetUserId :: Oid
  GetNewOid :: "pg_statistic_ext list \<Rightarrow> Oid"

subsection \<open>Catalog lookups\<close>

text \<open>\<^verbatim>\<open>SearchSysCacheExists2(STATEXTNAMENSP, name, namespace)\<close>: is there a row with
  this name in this namespace.\<close>

definition SearchSysCacheExists2_STATEXTNAMENSP ::
    "state \<Rightarrow> string \<Rightarrow> Oid \<Rightarrow> bool" where
  "SearchSysCacheExists2_STATEXTNAMENSP s name nsp =
     (find (\<lambda>r. stxname r = name \<and> stxnamespace r = nsp) (StatisticExtRelation s) \<noteq> None)"

text \<open>\<^verbatim>\<open>SearchSysCache1(STATEXTOID, oid)\<close>: the row with this identifier, if any.\<close>

definition SearchSysCache1_STATEXTOID :: "state \<Rightarrow> Oid \<Rightarrow> pg_statistic_ext option" where
  "SearchSysCache1_STATEXTOID s statsOid =
     find (\<lambda>r. oid r = statsOid) (StatisticExtRelation s)"

definition emit :: "event list \<Rightarrow> state \<Rightarrow> state" where
  "emit es s = s\<lparr>trace := trace s @ es\<rparr>"

subsection \<open>\<^verbatim>\<open>compare_int16\<close> and \<^verbatim>\<open>qsort\<close>\<close>

text \<open>The comparator of the source; the difference is taken in \<^verbatim>\<open>int\<close>, which is wider
  than \<^verbatim>\<open>int16\<close>, so it cannot overflow.\<close>

definition compare_int16 :: "int16 \<Rightarrow> int16 \<Rightarrow> int" where
  "compare_int16 a b = (let av = sint a; bv = sint b in av - bv)"

text \<open>
  The C library's \<^verbatim>\<open>qsort\<close> leaves the array sorted by the comparator. It is modelled as
  an insertion sort; values that compare equal here are equal, so every sorting
  algorithm returns the same array.
\<close>

fun qsort_insert :: "('a \<Rightarrow> 'a \<Rightarrow> int) \<Rightarrow> 'a \<Rightarrow> 'a list \<Rightarrow> 'a list" where
  "qsort_insert cmp x [] = [x]"
| "qsort_insert cmp x (y # ys) =
     (if cmp x y \<le> 0 then x # y # ys else y # qsort_insert cmp x ys)"

definition qsort :: "('a \<Rightarrow> 'a \<Rightarrow> int) \<Rightarrow> 'a list \<Rightarrow> 'a list" where
  "qsort cmp xs = foldr (qsort_insert cmp) xs []"

subsection \<open>\<^verbatim>\<open>CreateStatistics\<close>, lines 126 to 165: column names to attribute numbers\<close>

text \<open>
  The \<^verbatim>\<open>foreach(l, stmt->keys)\<close> loop. The array \<^verbatim>\<open>attnums\<close> with its fill count
  \<^verbatim>\<open>numcols\<close> is the list \<open>attnums\<close>, \<^verbatim>\<open>numcols\<close> its length.
\<close>

fun resolve_keys :: "env \<Rightarrow> Oid \<Rightarrow> string list \<Rightarrow> int16 list \<Rightarrow> error + int16 list" where
  "resolve_keys e relid [] attnums = Inr attnums"
| "resolve_keys e relid (attname # l) attnums =
     (case SearchSysCacheAttName e relid attname of
        None \<Rightarrow>
          Inl (Ereport ERRCODE_UNDEFINED_COLUMN
                 ''column \"%s\" referenced in statistics does not exist'' [S attname])
      | Some attForm \<Rightarrow>
          if sint (attnum attForm) < 0 then
            Inl (Ereport ERRCODE_FEATURE_NOT_SUPPORTED
                   ''statistics creation on system columns is not supported'' [])
          else if lt_opr (lookup_type_cache e (atttypid attForm)) = InvalidOid then
            Inl (Ereport ERRCODE_FEATURE_NOT_SUPPORTED
                   ''column \"%s\" cannot be used in statistics because its type has no default btree operator class''
                   [S attname])
          else if length attnums \<ge> STATS_MAX_DIMENSIONS e then
            Inl (Ereport ERRCODE_TOO_MANY_COLUMNS
                   ''cannot have more than %d columns in statistics''
                   [D (STATS_MAX_DIMENSIONS e)])
          else resolve_keys e relid l (attnums @ [attnum attForm]))"

subsection \<open>Lines 167 to 194: arity, sorting, duplicates\<close>

text \<open>The loop \<^verbatim>\<open>for (i = 1; i < numcols; i++) if (attnums[i] == attnums[i - 1])\<close>:
  does some element equal its predecessor.\<close>

fun adjacent_duplicate :: "int16 list \<Rightarrow> bool" where
  "adjacent_duplicate (x # y # zs) = (if y = x then True else adjacent_duplicate (y # zs))"
| "adjacent_duplicate zs = False"

definition normalize_keys :: "int16 list \<Rightarrow> error + int16 list" where
  "normalize_keys attnums =
     (if length attnums < 2 then
        Inl (Ereport ERRCODE_INVALID_OBJECT_DEFINITION
               ''extended statistics require at least 2 columns'' [])
      else
        let sorted_attnums = qsort compare_int16 attnums in
        if adjacent_duplicate sorted_attnums then
          Inl (Ereport ERRCODE_DUPLICATE_COLUMN
                 ''duplicate column name in statistics definition'' [])
        else Inr sorted_attnums)"

subsection \<open>Lines 196 to 236: the statistics options\<close>

text \<open>
  The \<^verbatim>\<open>foreach(l, stmt->options)\<close> loop over the three flags
  \<^verbatim>\<open>build_ndistinct\<close>, \<^verbatim>\<open>build_dependencies\<close> and \<^verbatim>\<open>requested_type\<close>.
\<close>

fun parse_options ::
    "env \<Rightarrow> DefElem list \<Rightarrow> bool \<times> bool \<times> bool \<Rightarrow> error + (bool \<times> bool \<times> bool)" where
  "parse_options e [] flags = Inr flags"
| "parse_options e (opt # l) (build_ndistinct, build_dependencies, requested_type) =
     (if defname opt = ''ndistinct'' then
        (case defGetBoolean e opt of
           Inl err \<Rightarrow> Inl err
         | Inr b \<Rightarrow> parse_options e l (b, build_dependencies, True))
      else if defname opt = ''dependencies'' then
        (case defGetBoolean e opt of
           Inl err \<Rightarrow> Inl err
         | Inr b \<Rightarrow> parse_options e l (build_ndistinct, b, True))
      else
        Inl (Ereport ERRCODE_SYNTAX_ERROR
               ''unrecognized STATISTICS option \"%s\"'' [S (defname opt)]))"

text \<open>Lines 222 to 227: if no statistic type was specified, build them all.\<close>

definition default_kinds :: "bool \<times> bool \<times> bool \<Rightarrow> bool \<times> bool" where
  "default_kinds flags =
     (case flags of (build_ndistinct, build_dependencies, requested_type) \<Rightarrow>
        if \<not> requested_type then (True, True) else (build_ndistinct, build_dependencies))"

text \<open>Lines 229 to 234: the array \<^verbatim>\<open>types\<close>, filled up to \<^verbatim>\<open>ntypes\<close>.\<close>

definition enabled_types :: "bool \<times> bool \<Rightarrow> stats_kind list" where
  "enabled_types b =
     (if fst b then [STATS_EXT_NDISTINCT] else []) @
     (if snd b then [STATS_EXT_DEPENDENCIES] else [])"

text \<open>The kinds the options select (lines 200 to 234), before the assertion.\<close>

definition requested_kinds :: "env \<Rightarrow> DefElem list \<Rightarrow> error + stats_kind list" where
  "requested_kinds e opts =
     (case parse_options e opts (False, False, False) of
        Inl err \<Rightarrow> Inl err
      | Inr flags \<Rightarrow> Inr (enabled_types (default_kinds flags)))"

text \<open>Line 235: \<^verbatim>\<open>Assert(ntypes > 0 && ntypes <= lengthof(types))\<close>, where \<^verbatim>\<open>types\<close> has
  two elements. The condition, and the macro: a build without assertion checking does
  not evaluate it.\<close>

definition ntypes_assertion :: "stats_kind list \<Rightarrow> bool" where
  "ntypes_assertion types = (let ntypes = length types in ntypes > 0 \<and> ntypes \<le> 2)"

definition select_kinds :: "env \<Rightarrow> DefElem list \<Rightarrow> error + stats_kind list" where
  "select_kinds e opts =
     (case requested_kinds e opts of
        Inl err \<Rightarrow> Inl err
      | Inr types \<Rightarrow>
          if USE_ASSERT_CHECKING e \<and> \<not> ntypes_assertion types then
            Inl (FailedAssertion ''ntypes > 0 && ntypes <= lengthof(types)'')
          else Inr types)"

subsection \<open>Lines 238 to 290: the catalog row, the invalidation, the dependencies\<close>

text \<open>The tuple formed from \<^verbatim>\<open>values\<close> and \<^verbatim>\<open>nulls\<close>; the insert gives it its identifier.\<close>

definition form_tuple ::
    "env \<Rightarrow> Oid \<Rightarrow> string \<Rightarrow> Oid \<Rightarrow> int16 list \<Rightarrow> stats_kind list \<Rightarrow> Oid \<Rightarrow> pg_statistic_ext" where
  "form_tuple e relid name namespaceId attnums types statoid =
     \<lparr>oid = statoid,
      stxrelid = relid,
      stxname = name,
      stxnamespace = namespaceId,
      stxowner = GetUserId e,
      stxkeys = attnums,
      stxkind = types,
      stxndistinct = None,
      stxdependencies = None\<rparr>"

definition write_catalog ::
    "env \<Rightarrow> Relation \<Rightarrow> string \<Rightarrow> Oid \<Rightarrow> int16 list \<Rightarrow> stats_kind list \<Rightarrow> state
       \<Rightarrow> ObjectAddress \<times> state" where
  "write_catalog e rel name namespaceId attnums types s =
     (let relid = rd_id rel;
          statoid = GetNewOid e (StatisticExtRelation s);
          htup = form_tuple e relid name namespaceId attnums types statoid;
          childobject = ObjectAddressSet (StatisticExtRelationId e) statoid;
          s1 = emit [LockRelation (StatisticExtRelationId e) RowExclusiveLock] s;
          s2 = emit [CatalogTupleInsert htup]
                 (s1\<lparr>StatisticExtRelation := StatisticExtRelation s1 @ [htup]\<rparr>);
          s3 = emit [UnlockRelation (StatisticExtRelationId e) RowExclusiveLock] s2;
          s4 = emit [CacheInvalidateRelcache relid] s3;
          s5 = emit [recordDependencyOn childobject
                       (ObjectAddressSet (RelationRelationId e) relid) DEPENDENCY_AUTO] s4;
          s6 = emit [recordDependencyOn childobject
                       (ObjectAddressSet (NamespaceRelationId e) namespaceId) DEPENDENCY_AUTO] s5
      in (ObjectAddressSet (StatisticExtRelationId e) statoid, s6))"

subsection \<open>\<^verbatim>\<open>CreateStatistics\<close>\<close>

text \<open>Lines 110 to 120: is the relation of a kind that can carry statistics.\<close>

definition relkind_ok :: "relkind \<Rightarrow> bool" where
  "relkind_ok k =
     (\<not> (k \<noteq> RELKIND_RELATION \<and> k \<noteq> RELKIND_MATVIEW \<and>
         k \<noteq> RELKIND_FOREIGN_TABLE \<and> k \<noteq> RELKIND_PARTITIONED_TABLE))"

text \<open>Lines 103 to 291, reached when the name is not taken.\<close>

definition create_on_relation ::
    "env \<Rightarrow> CreateStatsStmt \<Rightarrow> string \<Rightarrow> Oid \<Rightarrow> state \<Rightarrow> error + (ObjectAddress \<times> state)" where
  "create_on_relation e stmt name namespaceId s =
     (case relation_openrv e (relation stmt) ShareUpdateExclusiveLock of
        Inl err \<Rightarrow> Inl err
      | Inr rel \<Rightarrow>
          let s1 = emit [LockRelation (rd_id rel) ShareUpdateExclusiveLock] s in
          if \<not> relkind_ok (rd_relkind rel) then
            Inl (Ereport ERRCODE_WRONG_OBJECT_TYPE
                   ''relation \"%s\" is not a table, foreign table, or materialized view''
                   [S (rd_relname rel)])
          else
            (case resolve_keys e (rd_id rel) (keys stmt) [] of
               Inl err \<Rightarrow> Inl err
             | Inr attnums \<Rightarrow>
                 (case normalize_keys attnums of
                    Inl err \<Rightarrow> Inl err
                  | Inr sorted_attnums \<Rightarrow>
                      (case select_kinds e (options stmt) of
                         Inl err \<Rightarrow> Inl err
                       | Inr types \<Rightarrow>
                           Inr (write_catalog e rel name namespaceId sorted_attnums types s1)))))"

text \<open>The whole function. \<^verbatim>\<open>Assert(IsA(stmt, CreateStatsStmt))\<close> holds by the type of
  \<open>stmt\<close>.\<close>

definition CreateStatistics ::
    "env \<Rightarrow> CreateStatsStmt \<Rightarrow> state \<Rightarrow> error + (ObjectAddress \<times> state)" where
  "CreateStatistics e stmt s =
     (case QualifiedNameGetCreationNamespace e (defnames stmt) of
        Inl err \<Rightarrow> Inl err
      | Inr (namespaceId, namestr) \<Rightarrow>
          let name = namestrcpy e namestr in
          if SearchSysCacheExists2_STATEXTNAMENSP s name namespaceId then
            (if if_not_exists stmt then
               Inr (InvalidObjectAddress,
                    emit [NOTICE ERRCODE_DUPLICATE_OBJECT
                            ''statistics \"%s\" already exist, skipping'' [S namestr]] s)
             else
               Inl (Ereport ERRCODE_DUPLICATE_OBJECT
                      ''statistics \"%s\" already exist'' [S namestr]))
          else create_on_relation e stmt name namespaceId s)"

subsection \<open>\<^verbatim>\<open>RemoveStatisticsById\<close>\<close>

definition RemoveStatisticsById :: "env \<Rightarrow> Oid \<Rightarrow> state \<Rightarrow> error + state" where
  "RemoveStatisticsById e statsOid s =
     (let s1 = emit [LockRelation (StatisticExtRelationId e) RowExclusiveLock] s in
      case SearchSysCache1_STATEXTOID s1 statsOid of
        None \<Rightarrow> Inl (Elog ''cache lookup failed for statistics %u'' [U statsOid])
      | Some tup \<Rightarrow>
          let relid = stxrelid tup;
              s2 = emit [CacheInvalidateRelcache relid] s1;
              s3 = emit [simple_heap_delete tup]
                     (s2\<lparr>StatisticExtRelation := remove1 tup (StatisticExtRelation s2)\<rparr>);
              s4 = emit [UnlockRelation (StatisticExtRelationId e) RowExclusiveLock] s3
          in Inr s4)"

subsection \<open>Vocabulary of the statements below\<close>

text \<open>The checks of lines 133 to 153 pass for the column name \<open>k\<close>: the attribute
  cache has a descriptor \<open>a\<close> for it, which is not a system attribute and whose type has
  a less-than operator.\<close>

definition resolves_to :: "env \<Rightarrow> Oid \<Rightarrow> string \<Rightarrow> pg_attribute \<Rightarrow> bool" where
  "resolves_to e relid k a =
     (SearchSysCacheAttName e relid k = Some a \<and> \<not> sint (attnum a) < 0 \<and>
      lt_opr (lookup_type_cache e (atttypid a)) \<noteq> InvalidOid)"

text \<open>The row that lines 238 to 258 insert when the catalog is \<open>s\<close>.\<close>

definition created_row ::
    "env \<Rightarrow> Relation \<Rightarrow> string \<Rightarrow> Oid \<Rightarrow> int16 list \<Rightarrow> stats_kind list \<Rightarrow> state
       \<Rightarrow> pg_statistic_ext" where
  "created_row e rel name namespaceId attnums types s =
     form_tuple e (rd_id rel) name namespaceId attnums types
       (GetNewOid e (StatisticExtRelation s))"

text \<open>The dependency edges recorded in a trace, in order.\<close>

fun recorded_dependencies ::
    "event list \<Rightarrow> (ObjectAddress \<times> ObjectAddress \<times> DependencyType) list" where
  "recorded_dependencies [] = []"
| "recorded_dependencies (recordDependencyOn depender referenced behavior # es) =
     (depender, referenced, behavior) # recorded_dependencies es"
| "recorded_dependencies (ev # es) = recorded_dependencies es"

subsection \<open>A concrete catalog\<close>

text \<open>
  A table \<^verbatim>\<open>t\<close> (identifier 16384) in the schema \<^verbatim>\<open>public\<close> (identifier 2200) with
  ten integer columns \<^verbatim>\<open>a\<close> to \<^verbatim>\<open>j\<close>, a column \<^verbatim>\<open>p\<close> of a type without a less-than
  operator and the system column \<^verbatim>\<open>ctid\<close>; at most eight columns per statistics
  object; one statistics object \<^verbatim>\<open>s0\<close> on the columns 1 and 2 already in the catalog.
\<close>

definition example_attributes :: "(string \<times> pg_attribute) list" where
  "example_attributes =
     [(''a'', \<lparr>attnum = 1, atttypid = 23\<rparr>), (''b'', \<lparr>attnum = 2, atttypid = 23\<rparr>),
      (''c'', \<lparr>attnum = 3, atttypid = 23\<rparr>), (''d'', \<lparr>attnum = 4, atttypid = 23\<rparr>),
      (''e'', \<lparr>attnum = 5, atttypid = 23\<rparr>), (''f'', \<lparr>attnum = 6, atttypid = 23\<rparr>),
      (''g'', \<lparr>attnum = 7, atttypid = 23\<rparr>), (''h'', \<lparr>attnum = 8, atttypid = 23\<rparr>),
      (''i'', \<lparr>attnum = 9, atttypid = 23\<rparr>), (''j'', \<lparr>attnum = 10, atttypid = 23\<rparr>),
      (''p'', \<lparr>attnum = 11, atttypid = 600\<rparr>), (''ctid'', \<lparr>attnum = - 1, atttypid = 27\<rparr>)]"

definition example_attribute :: "string \<Rightarrow> pg_attribute" where
  "example_attribute k =
     (case map_of example_attributes k of
        Some a \<Rightarrow> a
      | None \<Rightarrow> \<lparr>attnum = 0, atttypid = InvalidOid\<rparr>)"

definition example_defGetBoolean :: "DefElem \<Rightarrow> error + bool" where
  "example_defGetBoolean def =
     (case arg def of
        None \<Rightarrow> Inr True
      | Some (Integer i) \<Rightarrow>
          if i = 0 then Inr False
          else if i = 1 then Inr True
          else Inl (Ereport ERRCODE_SYNTAX_ERROR ''%s requires a Boolean value'' [S (defname def)])
      | Some (String v) \<Rightarrow>
          if v = ''true'' \<or> v = ''on'' then Inr True
          else if v = ''false'' \<or> v = ''off'' then Inr False
          else Inl (Ereport ERRCODE_SYNTAX_ERROR ''%s requires a Boolean value'' [S (defname def)]))"

definition example_env :: env where
  "example_env =
     \<lparr>STATS_MAX_DIMENSIONS = 8,
      USE_ASSERT_CHECKING = True,
      StatisticExtRelationId = 3381,
      RelationRelationId = 1259,
      NamespaceRelationId = 2615,
      QualifiedNameGetCreationNamespace =
        (\<lambda>names. case names of
           [n] \<Rightarrow> Inr (2200, n)
         | _ \<Rightarrow> Inl (Ereport ERRCODE_UNDEFINED_SCHEMA ''schema does not exist'' [])),
      namestrcpy = take 63,
      relation_openrv =
        (\<lambda>rv mode.
           if relname rv = ''t'' then
             Inr \<lparr>rd_id = 16384, rd_relkind = RELKIND_RELATION, rd_relname = ''t''\<rparr>
           else Inl (Ereport ERRCODE_UNDEFINED_TABLE ''relation \"%s\" does not exist''
                       [S (relname rv)])),
      SearchSysCacheAttName =
        (\<lambda>relid k. if relid = 16384 then map_of example_attributes k else None),
      lookup_type_cache = (\<lambda>typid. \<lparr>lt_opr = (if typid = 23 then 97 else InvalidOid)\<rparr>),
      defGetBoolean = example_defGetBoolean,
      GetUserId = 10,
      GetNewOid = (\<lambda>rows. 16500 + of_nat (length rows))\<rparr>"

definition example_row :: pg_statistic_ext where
  "example_row =
     \<lparr>oid = 16499, stxrelid = 16384, stxname = ''s0'', stxnamespace = 2200, stxowner = 10,
      stxkeys = [1, 2], stxkind = [STATS_EXT_NDISTINCT, STATS_EXT_DEPENDENCIES],
      stxndistinct = None, stxdependencies = None\<rparr>"

definition example_state :: state where
  "example_state = \<lparr>StatisticExtRelation = [example_row], trace = []\<rparr>"

text \<open>\<^verbatim>\<open>CREATE STATISTICS [IF NOT EXISTS] name ON ks FROM t WITH (opts)\<close>.\<close>

definition example_stmt ::
    "bool \<Rightarrow> string \<Rightarrow> string list \<Rightarrow> DefElem list \<Rightarrow> CreateStatsStmt" where
  "example_stmt ine name ks opts =
     \<lparr>defnames = [name], keys = ks, relation = \<lparr>schemaname = None, relname = ''t''\<rparr>,
      options = opts, if_not_exists = ine\<rparr>"

definition example_option :: "string \<Rightarrow> string \<Rightarrow> DefElem" where
  "example_option name v = \<lparr>defname = name, arg = Some (String v)\<rparr>"

section \<open>Properties\<close>

lemmas model_defs =
  CreateStatistics_def create_on_relation_def normalize_keys_def select_kinds_def
  requested_kinds_def default_kinds_def enabled_types_def ntypes_assertion_def
  write_catalog_def form_tuple_def emit_def relkind_ok_def qsort_def compare_int16_def
  SearchSysCacheExists2_STATEXTNAMENSP_def ObjectAddressSet_def InvalidOid_def Let_def

lemmas example_defs =
  example_env_def example_stmt_def example_state_def example_row_def example_attributes_def
  example_option_def example_defGetBoolean_def

lemma example_defGetBoolean_simps:
  "defGetBoolean example_env (example_option n ''true'') = Inr True"
  "defGetBoolean example_env (example_option n ''false'') = Inr False"
  "defname (example_option n v) = n"
  by (simp_all add: example_env_def example_defGetBoolean_def example_option_def)

lemma example_relation:
  "relation_openrv example_env (relation (example_stmt ine name ks opts))
     ShareUpdateExclusiveLock =
     Inr \<lparr>rd_id = 16384, rd_relkind = RELKIND_RELATION, rd_relname = ''t''\<rparr>"
  "relkind_ok (rd_relkind \<lparr>rd_id = 16384, rd_relkind = RELKIND_RELATION, rd_relname = ''t''\<rparr>)"
  by (simp_all add: example_env_def example_stmt_def relkind_ok_def)

lemma example_resolves:
  "k \<in> set [''a'', ''b'', ''c'', ''d'', ''e'', ''f'', ''g'', ''h'', ''i'', ''j''] \<Longrightarrow>
     resolves_to example_env 16384 k (example_attribute k)"
  by (auto simp add: resolves_to_def example_env_def example_attribute_def
        example_attributes_def InvalidOid_def)

subsection \<open>Sorting and duplicate detection\<close>

lemma qsort_insert_compare_int16:
  "qsort_insert compare_int16 x ys = insort_key sint x ys"
  by (induction ys) (simp_all add: compare_int16_def)

lemma qsort_compare_int16: "qsort compare_int16 xs = sort_key sint xs"
  unfolding qsort_def sort_key_def
  by (induction xs) (simp_all add: qsort_insert_compare_int16)

lemma sint_eq_iff: "sint (a :: int16) = sint b \<longleftrightarrow> a = b"
  using word_eq_iff_signed [where ?'a = int, of a b] by simp

lemma adjacent_duplicate_sorted:
  "sorted (map sint xs) \<Longrightarrow> adjacent_duplicate xs = (\<not> distinct xs)"
proof (induction xs rule: adjacent_duplicate.induct)
  case (1 x y zs)
  show ?case
  proof (cases "y = x")
    case True
    then show ?thesis by simp
  next
    case False
    from "1.prems" have "sint x \<le> sint y" by simp
    with False have lt: "sint x < sint y" using sint_eq_iff [of x y] by auto
    from "1.prems" have "\<forall>z \<in> set zs. sint y \<le> sint z" by simp
    with lt have "\<forall>z \<in> set (y # zs). sint x < sint z" by fastforce
    then have notin: "x \<notin> set (y # zs)" by blast
    from "1.prems" have "sorted (map sint (y # zs))" by simp
    with "1.IH" False have "adjacent_duplicate (y # zs) = (\<not> distinct (y # zs))" by simp
    with False notin show ?thesis by simp
  qed
qed simp_all

lemma adjacent_duplicate_sort:
  "adjacent_duplicate (sort_key sint xs) = (\<not> distinct xs)"
  using adjacent_duplicate_sorted [of "sort_key sint xs"] by simp

lemma sort_key_sint_strict:
  "distinct xs \<Longrightarrow> sorted_wrt (\<lambda>a b. sint a < sint b) (sort_key sint (xs :: int16 list))"
proof -
  assume d: "distinct xs"
  have "sorted (map sint (sort_key sint xs))" by (rule sorted_sort_key)
  moreover have "distinct (map sint (sort_key sint xs))"
    using d by (simp add: distinct_map inj_on_def sint_eq_iff)
  ultimately have "sorted_wrt (<) (map sint (sort_key sint xs))"
    by (simp add: strict_sorted_iff)
  then show ?thesis by (simp add: sorted_wrt_map)
qed

lemma sort_key_sint_perm:
  "mset xs = mset ys \<Longrightarrow> sort_key sint (xs :: int16 list) = sort_key sint ys"
  by (rule sort_key_eq_sort_key) (simp_all add: inj_on_def sint_eq_iff)

text \<open>What lines 167 to 194 compute, in terms of the list library.\<close>

lemma normalize_keys_eq:
  "normalize_keys attnums =
     (if length attnums < 2 then
        Inl (Ereport ERRCODE_INVALID_OBJECT_DEFINITION
               ''extended statistics require at least 2 columns'' [])
      else if \<not> distinct attnums then
        Inl (Ereport ERRCODE_DUPLICATE_COLUMN
               ''duplicate column name in statistics definition'' [])
      else Inr (sort_key sint attnums))"
  by (simp add: normalize_keys_def qsort_compare_int16 adjacent_duplicate_sort Let_def)

subsection \<open>The column loop\<close>

lemma resolve_keys_valid:
  assumes "\<forall>k \<in> set ks. resolves_to e relid k (att k)"
    and "length acc + length ks \<le> STATS_MAX_DIMENSIONS e"
  shows "resolve_keys e relid ks acc = Inr (acc @ map (\<lambda>k. attnum (att k)) ks)"
  using assms by (induction ks arbitrary: acc) (simp_all add: resolves_to_def)

lemma resolve_keys_too_many:
  assumes "\<forall>k \<in> set (take (Suc (STATS_MAX_DIMENSIONS e) - length acc) ks).
             resolves_to e relid k (att k)"
    and "length acc \<le> STATS_MAX_DIMENSIONS e"
    and "STATS_MAX_DIMENSIONS e < length acc + length ks"
  shows "resolve_keys e relid ks acc =
           Inl (Ereport ERRCODE_TOO_MANY_COLUMNS
                  ''cannot have more than %d columns in statistics''
                  [D (STATS_MAX_DIMENSIONS e)])"
  using assms
proof (induction ks arbitrary: acc)
  case Nil
  then show ?case by simp
next
  case (Cons k ks)
  from Cons.prems(2,3) obtain n where n: "Suc (STATS_MAX_DIMENSIONS e) - length acc = Suc n"
    by (cases "Suc (STATS_MAX_DIMENSIONS e) - length acc") simp_all
  with Cons.prems(1) have hd: "resolves_to e relid k (att k)"
    by simp
  show ?case
  proof (cases "length acc \<ge> STATS_MAX_DIMENSIONS e")
    case True
    with hd show ?thesis by (simp add: resolves_to_def)
  next
    case False
    have "resolve_keys e relid ks (acc @ [attnum (att k)]) =
           Inl (Ereport ERRCODE_TOO_MANY_COLUMNS
                  ''cannot have more than %d columns in statistics''
                  [D (STATS_MAX_DIMENSIONS e)])"
    proof (rule Cons.IH)
      show "\<forall>k' \<in> set (take (Suc (STATS_MAX_DIMENSIONS e) - length (acc @ [attnum (att k)])) ks).
              resolves_to e relid k' (att k')"
      proof -
        from n False have "Suc (STATS_MAX_DIMENSIONS e) - length (acc @ [attnum (att k)]) = n"
          by simp
        with Cons.prems(1) n show ?thesis by simp
      qed
      show "length (acc @ [attnum (att k)]) \<le> STATS_MAX_DIMENSIONS e" using False by simp
      show "STATS_MAX_DIMENSIONS e < length (acc @ [attnum (att k)]) + length ks"
        using Cons.prems(3) by simp
    qed
    with hd False show ?thesis by (simp add: resolves_to_def)
  qed
qed

subsection \<open>The name check of lines 82 to 101\<close>

lemma CreateStatistics_name_taken:
  assumes "QualifiedNameGetCreationNamespace e (defnames stmt) = Inr (namespaceId, namestr)"
    and "SearchSysCacheExists2_STATEXTNAMENSP s (namestrcpy e namestr) namespaceId"
  shows "CreateStatistics e stmt s =
           (if if_not_exists stmt then
              Inr (InvalidObjectAddress,
                   emit [NOTICE ERRCODE_DUPLICATE_OBJECT
                           ''statistics \"%s\" already exist, skipping'' [S namestr]] s)
            else Inl (Ereport ERRCODE_DUPLICATE_OBJECT
                        ''statistics \"%s\" already exist'' [S namestr]))"
  using assms by (simp add: CreateStatistics_def)

lemma CreateStatistics_name_free:
  assumes "QualifiedNameGetCreationNamespace e (defnames stmt) = Inr (namespaceId, namestr)"
    and "\<not> SearchSysCacheExists2_STATEXTNAMENSP s (namestrcpy e namestr) namespaceId"
  shows "CreateStatistics e stmt s =
           create_on_relation e stmt (namestrcpy e namestr) namespaceId s"
  using assms by (simp add: CreateStatistics_def)

lemma example_name_taken:
  "QualifiedNameGetCreationNamespace example_env (defnames (example_stmt ine ''s0'' ks opts)) =
     Inr (2200, ''s0'')"
  "SearchSysCacheExists2_STATEXTNAMENSP example_state (namestrcpy example_env ''s0'') 2200"
  by (simp_all add: example_env_def example_stmt_def example_state_def example_row_def
        SearchSysCacheExists2_STATEXTNAMENSP_def)

lemma example_name_free:
  "QualifiedNameGetCreationNamespace example_env (defnames (example_stmt ine ''s1'' ks opts)) =
     Inr (2200, ''s1'')"
  "\<not> SearchSysCacheExists2_STATEXTNAMENSP example_state (namestrcpy example_env ''s1'') 2200"
  by (simp_all add: example_env_def example_stmt_def example_state_def example_row_def
        SearchSysCacheExists2_STATEXTNAMENSP_def)

text \<open>
  Claim C2. Whenever the name of the request, resolved to a namespace, is the name of a
  statistics object already in \<^verbatim>\<open>pg_statistic_ext\<close>: without \<^verbatim>\<open>IF NOT EXISTS\<close> the
  function raises an error with code \<^verbatim>\<open>ERRCODE_DUPLICATE_OBJECT\<close>; with it, the function
  returns, the catalog rows are the ones it started with, and the only thing it has done
  is to emit a NOTICE. Nothing else of the request is looked at: the relation, the
  columns and the options are arbitrary.
\<close>

theorem CreateStatistics_existing_name:
  assumes "QualifiedNameGetCreationNamespace e (defnames stmt) = Inr (namespaceId, namestr)"
    and "SearchSysCacheExists2_STATEXTNAMENSP s (namestrcpy e namestr) namespaceId"
  shows "(\<not> if_not_exists stmt \<longrightarrow>
            CreateStatistics e stmt s =
              Inl (Ereport ERRCODE_DUPLICATE_OBJECT
                     ''statistics \"%s\" already exist'' [S namestr])) \<and>
         (if_not_exists stmt \<longrightarrow>
            (\<exists>addr. CreateStatistics e stmt s =
               Inr (addr, \<lparr>StatisticExtRelation = StatisticExtRelation s,
                          trace = trace s @ [NOTICE ERRCODE_DUPLICATE_OBJECT
                            ''statistics \"%s\" already exist, skipping'' [S namestr]]\<rparr>)))"
  using CreateStatistics_name_taken [OF assms] by (simp add: emit_def)

theorem CreateStatistics_existing_name_witness:
  "CreateStatistics example_env (example_stmt False ''s0'' [''a'', ''b''] []) example_state =
     Inl (Ereport ERRCODE_DUPLICATE_OBJECT ''statistics \"%s\" already exist'' [S ''s0'']) \<and>
   CreateStatistics example_env (example_stmt True ''s0'' [''a'', ''nosuch''] []) example_state =
     Inr (InvalidObjectAddress,
          \<lparr>StatisticExtRelation = [example_row],
           trace = [NOTICE ERRCODE_DUPLICATE_OBJECT
                      ''statistics \"%s\" already exist, skipping'' [S ''s0'']]\<rparr>)"
proof -
  have "CreateStatistics example_env (example_stmt True ''s0'' [''a'', ''nosuch''] [])
          example_state =
     Inr (InvalidObjectAddress,
          \<lparr>StatisticExtRelation = [example_row],
           trace = [NOTICE ERRCODE_DUPLICATE_OBJECT
                      ''statistics \"%s\" already exist, skipping'' [S ''s0'']]\<rparr>)"
    by (simp add: CreateStatistics_name_taken [OF example_name_taken] emit_def)
       (simp add: example_stmt_def example_state_def)
  then show ?thesis
    using CreateStatistics_existing_name [OF example_name_taken, of False "[''a'', ''b'']" "[]"]
      CreateStatistics_existing_name [OF example_name_taken, of True "[''a'', ''nosuch'']" "[]"]
    by (simp add: example_stmt_def example_state_def)
qed

text \<open>
  Claim C9. When the name is taken and \<^verbatim>\<open>IF NOT EXISTS\<close> is given, the address returned
  is \<^verbatim>\<open>InvalidObjectAddress\<close>, whose three fields are zero. It is the address of no row of
  \<^verbatim>\<open>pg_statistic_ext\<close>, in particular not of the object that has the name, as long as the
  catalog's own identifier \<^verbatim>\<open>StatisticExtRelationId\<close> is a valid one.
\<close>

theorem CreateStatistics_skip_returns_invalid_address:
  assumes "QualifiedNameGetCreationNamespace e (defnames stmt) = Inr (namespaceId, namestr)"
    and "SearchSysCacheExists2_STATEXTNAMENSP s (namestrcpy e namestr) namespaceId"
    and "if_not_exists stmt"
    and "StatisticExtRelationId e \<noteq> InvalidOid"
  shows "\<exists>s'. CreateStatistics e stmt s = Inr (InvalidObjectAddress, s') \<and>
           InvalidObjectAddress = \<lparr>classId = 0, objectId = 0, objectSubId = 0\<rparr> \<and>
           (\<forall>r \<in> set (StatisticExtRelation s).
              InvalidObjectAddress \<noteq> ObjectAddressSet (StatisticExtRelationId e) (oid r))"
  using CreateStatistics_name_taken [OF assms(1,2)] assms(3,4)
  by (simp add: InvalidObjectAddress_def ObjectAddressSet_def InvalidOid_def)

theorem CreateStatistics_skip_returns_invalid_address_witness:
  "CreateStatistics example_env (example_stmt True ''s0'' [''a'', ''b''] []) example_state =
     Inr (\<lparr>classId = 0, objectId = 0, objectSubId = 0\<rparr>,
          \<lparr>StatisticExtRelation = [example_row],
           trace = [NOTICE ERRCODE_DUPLICATE_OBJECT
                      ''statistics \"%s\" already exist, skipping'' [S ''s0'']]\<rparr>) \<and>
   ObjectAddressSet (StatisticExtRelationId example_env) (oid example_row) =
     \<lparr>classId = 3381, objectId = 16499, objectSubId = 0\<rparr>"
proof -
  have flag: "if_not_exists (example_stmt True ''s0'' [''a'', ''b''] [])"
    by (simp add: example_stmt_def)
  have cat: "StatisticExtRelationId example_env \<noteq> InvalidOid"
    by (simp add: example_env_def InvalidOid_def)
  from CreateStatistics_skip_returns_invalid_address [OF example_name_taken flag cat]
  obtain s' where
    "CreateStatistics example_env (example_stmt True ''s0'' [''a'', ''b''] []) example_state =
       Inr (InvalidObjectAddress, s')"
    by blast
  moreover have
    "CreateStatistics example_env (example_stmt True ''s0'' [''a'', ''b''] []) example_state =
       Inr (InvalidObjectAddress, emit [NOTICE ERRCODE_DUPLICATE_OBJECT
              ''statistics \"%s\" already exist, skipping'' [S ''s0'']] example_state)"
    using CreateStatistics_name_taken [OF example_name_taken, of True "[''a'', ''b'']" "[]"] flag
    by simp
  ultimately show ?thesis
    by (simp add: InvalidObjectAddress_def InvalidOid_def ObjectAddressSet_def emit_def
          example_state_def example_env_def example_row_def)
qed

subsection \<open>The options\<close>

lemma parse_options_requested:
  assumes "parse_options e opts (bn0, bd0, rt0) = Inr (bn, bd, rt)"
    and "opts \<noteq> [] \<or> rt0"
  shows "rt"
  using assms
proof (induction opts arbitrary: bn0 bd0 rt0)
  case Nil
  then show ?case by simp
next
  case (Cons opt opts)
  then show ?case
    by (auto split: if_splits sum.splits)
qed

lemma parse_options_all_false:
  assumes "\<forall>opt \<in> set opts. (defname opt = ''ndistinct'' \<or> defname opt = ''dependencies'') \<and>
             defGetBoolean e opt = Inr False"
  shows "parse_options e opts (False, False, rt0) = Inr (False, False, rt0 \<or> opts \<noteq> [])"
  using assms by (induction opts arbitrary: rt0) auto

text \<open>
  Claim C3. The claim is that the kinds selected are never empty and that the assertion
  of line 235 holds whenever it is reached. The code does not keep it: for
  \<^verbatim>\<open>CREATE STATISTICS s1 ON a, b FROM t WITH (ndistinct = false)\<close> the option loop sets
  \<^verbatim>\<open>requested_type\<close> and leaves both \<^verbatim>\<open>build_\<close> flags false, the default is skipped and
  \<^verbatim>\<open>ntypes\<close> is 0 when the assertion is evaluated. A build that checks assertions stops
  there; a build that does not inserts a row whose \<^verbatim>\<open>stxkind\<close> is empty.
\<close>

theorem empty_kinds_trip_assertion:
  "requested_kinds example_env [example_option ''ndistinct'' ''false''] = Inr [] \<and>
   \<not> ntypes_assertion [] \<and>
   CreateStatistics example_env
     (example_stmt False ''s1'' [''a'', ''b''] [example_option ''ndistinct'' ''false''])
     example_state =
     Inl (FailedAssertion ''ntypes > 0 && ntypes <= lengthof(types)'') \<and>
   CreateStatistics (example_env\<lparr>USE_ASSERT_CHECKING := False\<rparr>)
     (example_stmt False ''s1'' [''a'', ''b''] [example_option ''ndistinct'' ''false''])
     example_state =
     Inr (\<lparr>classId = 3381, objectId = 16501, objectSubId = 0\<rparr>,
          \<lparr>StatisticExtRelation =
             [example_row,
              \<lparr>oid = 16501, stxrelid = 16384, stxname = ''s1'', stxnamespace = 2200,
               stxowner = 10, stxkeys = [1, 2], stxkind = [],
               stxndistinct = None, stxdependencies = None\<rparr>],
           trace =
             [LockRelation 16384 ShareUpdateExclusiveLock,
              LockRelation 3381 RowExclusiveLock,
              CatalogTupleInsert
                \<lparr>oid = 16501, stxrelid = 16384, stxname = ''s1'', stxnamespace = 2200,
                 stxowner = 10, stxkeys = [1, 2], stxkind = [],
                 stxndistinct = None, stxdependencies = None\<rparr>,
              UnlockRelation 3381 RowExclusiveLock,
              CacheInvalidateRelcache 16384,
              recordDependencyOn \<lparr>classId = 3381, objectId = 16501, objectSubId = 0\<rparr>
                \<lparr>classId = 1259, objectId = 16384, objectSubId = 0\<rparr> DEPENDENCY_AUTO,
              recordDependencyOn \<lparr>classId = 3381, objectId = 16501, objectSubId = 0\<rparr>
                \<lparr>classId = 2615, objectId = 2200, objectSubId = 0\<rparr> DEPENDENCY_AUTO]\<rparr>)"
  by (simp add: model_defs example_defs)

subsection \<open>\<^verbatim>\<open>RemoveStatisticsById\<close>\<close>

text \<open>
  Claim C7. If the identifier has a row in \<^verbatim>\<open>pg_statistic_ext\<close>, the function returns,
  having queued a relcache invalidation for the table of that row (its \<^verbatim>\<open>stxrelid\<close>) and
  then deleted that row, in this order, and nothing else but taking and releasing the
  lock on the catalog. If it has none, the function stops with \<^verbatim>\<open>elog(ERROR, ...)\<close>, the
  internal error, and not with an \<^verbatim>\<open>ereport\<close> carrying an error code for the user.
\<close>

theorem RemoveStatisticsById_outcome:
  "(SearchSysCache1_STATEXTOID s statsOid = Some tup \<longrightarrow>
      RemoveStatisticsById e statsOid s =
        Inr \<lparr>StatisticExtRelation = remove1 tup (StatisticExtRelation s),
             trace = trace s @
               [LockRelation (StatisticExtRelationId e) RowExclusiveLock,
                CacheInvalidateRelcache (stxrelid tup),
                simple_heap_delete tup,
                UnlockRelation (StatisticExtRelationId e) RowExclusiveLock]\<rparr> \<and>
      tup \<in> set (StatisticExtRelation s) \<and> oid tup = statsOid) \<and>
   (SearchSysCache1_STATEXTOID s statsOid = None \<longrightarrow>
      RemoveStatisticsById e statsOid s =
        Inl (Elog ''cache lookup failed for statistics %u'' [U statsOid]) \<and>
      (\<forall>c msg args. RemoveStatisticsById e statsOid s \<noteq> Inl (Ereport c msg args)))"
proof (intro conjI impI)
  assume f: "SearchSysCache1_STATEXTOID s statsOid = Some tup"
  then show "RemoveStatisticsById e statsOid s =
        Inr \<lparr>StatisticExtRelation = remove1 tup (StatisticExtRelation s),
             trace = trace s @
               [LockRelation (StatisticExtRelationId e) RowExclusiveLock,
                CacheInvalidateRelcache (stxrelid tup),
                simple_heap_delete tup,
                UnlockRelation (StatisticExtRelationId e) RowExclusiveLock]\<rparr>"
    by (simp add: RemoveStatisticsById_def SearchSysCache1_STATEXTOID_def emit_def Let_def)
  from f show "tup \<in> set (StatisticExtRelation s)"
    by (auto simp add: SearchSysCache1_STATEXTOID_def find_Some_iff)
  from f show "oid tup = statsOid"
    by (auto simp add: SearchSysCache1_STATEXTOID_def find_Some_iff)
next
  assume f: "SearchSysCache1_STATEXTOID s statsOid = None"
  then show r: "RemoveStatisticsById e statsOid s =
        Inl (Elog ''cache lookup failed for statistics %u'' [U statsOid])"
    by (simp add: RemoveStatisticsById_def SearchSysCache1_STATEXTOID_def emit_def Let_def)
  show "\<forall>c msg args. RemoveStatisticsById e statsOid s \<noteq> Inl (Ereport c msg args)"
    by (simp add: r)
qed

theorem RemoveStatisticsById_outcome_witness:
  "RemoveStatisticsById example_env 16499 example_state =
     Inr \<lparr>StatisticExtRelation = [],
          trace = [LockRelation 3381 RowExclusiveLock, CacheInvalidateRelcache 16384,
                   simple_heap_delete example_row, UnlockRelation 3381 RowExclusiveLock]\<rparr> \<and>
   RemoveStatisticsById example_env 16500 example_state =
     Inl (Elog ''cache lookup failed for statistics %u'' [U 16500])"
proof -
  have a: "SearchSysCache1_STATEXTOID example_state 16499 = Some example_row"
    by (simp add: SearchSysCache1_STATEXTOID_def example_state_def example_row_def)
  have b: "SearchSysCache1_STATEXTOID example_state 16500 = None"
    by (simp add: SearchSysCache1_STATEXTOID_def example_state_def example_row_def)
  from RemoveStatisticsById_outcome [of example_state 16499 example_row example_env] a
    RemoveStatisticsById_outcome [of example_state 16500 example_row example_env] b
  show ?thesis
    by (simp add: example_state_def example_env_def) (simp add: example_row_def)
qed

text \<open>When identifiers are unique in the catalog, the identifier removed is not found
  afterwards.\<close>

lemma RemoveStatisticsById_lookup_fails:
  assumes "distinct (map oid (StatisticExtRelation s))"
    and "RemoveStatisticsById e statsOid s = Inr s'"
  shows "SearchSysCache1_STATEXTOID s' statsOid = None"
proof -
  from assms(2) obtain tup where f: "SearchSysCache1_STATEXTOID s statsOid = Some tup"
    by (cases "SearchSysCache1_STATEXTOID s statsOid")
       (simp_all add: RemoveStatisticsById_def SearchSysCache1_STATEXTOID_def emit_def Let_def)
  with assms(2) have s': "StatisticExtRelation s' = remove1 tup (StatisticExtRelation s)"
    by (auto simp add: RemoveStatisticsById_def SearchSysCache1_STATEXTOID_def emit_def Let_def)
  from f have tup: "tup \<in> set (StatisticExtRelation s)" "oid tup = statsOid"
    by (auto simp add: SearchSysCache1_STATEXTOID_def find_Some_iff)
  from assms(1) have d: "distinct (StatisticExtRelation s)" by (rule distinct_map [THEN iffD1, THEN conjunct1])
  from assms(1) have inj: "inj_on oid (set (StatisticExtRelation s))" by (simp add: distinct_map)
  have "\<forall>r \<in> set (remove1 tup (StatisticExtRelation s)). oid r \<noteq> statsOid"
  proof
    fix r assume "r \<in> set (remove1 tup (StatisticExtRelation s))"
    with d have "r \<in> set (StatisticExtRelation s)" "r \<noteq> tup" by auto
    with inj tup show "oid r \<noteq> statsOid" by (auto dest: inj_onD)
  qed
  then show ?thesis
    by (simp add: SearchSysCache1_STATEXTOID_def s' find_None_iff)
qed

subsection \<open>The path that creates the object\<close>

lemma create_on_relation_stages:
  assumes "relation_openrv e (relation stmt) ShareUpdateExclusiveLock = Inr rel"
    and "relkind_ok (rd_relkind rel)"
  shows "create_on_relation e stmt name namespaceId s =
           (case resolve_keys e (rd_id rel) (keys stmt) [] of
              Inl err \<Rightarrow> Inl err
            | Inr attnums \<Rightarrow>
                (case normalize_keys attnums of
                   Inl err \<Rightarrow> Inl err
                 | Inr sorted_attnums \<Rightarrow>
                     (case select_kinds e (options stmt) of
                        Inl err \<Rightarrow> Inl err
                      | Inr types \<Rightarrow>
                          Inr (write_catalog e rel name namespaceId sorted_attnums types
                                 (emit [LockRelation (rd_id rel) ShareUpdateExclusiveLock] s)))))"
  using assms by (simp add: create_on_relation_def Let_def)

lemma write_catalog_eq:
  "write_catalog e rel name namespaceId attnums types
     (emit [LockRelation (rd_id rel) ShareUpdateExclusiveLock] s) =
   (ObjectAddressSet (StatisticExtRelationId e) (GetNewOid e (StatisticExtRelation s)),
    \<lparr>StatisticExtRelation =
       StatisticExtRelation s @ [created_row e rel name namespaceId attnums types s],
     trace = trace s @
       [LockRelation (rd_id rel) ShareUpdateExclusiveLock,
        LockRelation (StatisticExtRelationId e) RowExclusiveLock,
        CatalogTupleInsert (created_row e rel name namespaceId attnums types s),
        UnlockRelation (StatisticExtRelationId e) RowExclusiveLock,
        CacheInvalidateRelcache (rd_id rel),
        recordDependencyOn
          (ObjectAddressSet (StatisticExtRelationId e) (GetNewOid e (StatisticExtRelation s)))
          (ObjectAddressSet (RelationRelationId e) (rd_id rel)) DEPENDENCY_AUTO,
        recordDependencyOn
          (ObjectAddressSet (StatisticExtRelationId e) (GetNewOid e (StatisticExtRelation s)))
          (ObjectAddressSet (NamespaceRelationId e) namespaceId) DEPENDENCY_AUTO]\<rparr>)"
  by (simp add: write_catalog_def emit_def created_row_def Let_def)

lemma created_row_fields:
  "stxkeys (created_row e rel name namespaceId attnums types s) = attnums"
  "stxkind (created_row e rel name namespaceId attnums types s) = types"
  "stxndistinct (created_row e rel name namespaceId attnums types s) = None"
  "stxdependencies (created_row e rel name namespaceId attnums types s) = None"
  "oid (created_row e rel name namespaceId attnums types s) = GetNewOid e (StatisticExtRelation s)"
  by (simp_all add: created_row_def form_tuple_def)

lemma create_on_relation_valid:
  assumes rel: "relation_openrv e (relation stmt) ShareUpdateExclusiveLock = Inr rel"
    and kind: "relkind_ok (rd_relkind rel)"
    and cols: "\<forall>k \<in> set (keys stmt). resolves_to e (rd_id rel) k (att k)"
    and dist: "distinct (map (\<lambda>k. attnum (att k)) (keys stmt))"
    and len: "2 \<le> length (keys stmt)" "length (keys stmt) \<le> STATS_MAX_DIMENSIONS e"
    and kinds: "select_kinds e (options stmt) = Inr types"
  shows "create_on_relation e stmt name namespaceId s =
           Inr (write_catalog e rel name namespaceId
                  (sort_key sint (map (\<lambda>k. attnum (att k)) (keys stmt))) types
                  (emit [LockRelation (rd_id rel) ShareUpdateExclusiveLock] s))"
proof -
  have "resolve_keys e (rd_id rel) (keys stmt) [] = Inr (map (\<lambda>k. attnum (att k)) (keys stmt))"
    using resolve_keys_valid [of "keys stmt" e "rd_id rel" att "[]"] cols len by simp
  then show ?thesis
    using dist len kinds
    by (simp add: create_on_relation_stages [OF rel kind] normalize_keys_eq)
qed

text \<open>
  Claim C1. Take a request whose name resolves and is not taken, whose relation opens and
  is of a kind that can carry statistics, and whose options select the kinds \<open>types\<close>
  (and pass the assertion where it is checked). If its column list has between 2 and
  \<^verbatim>\<open>STATS_MAX_DIMENSIONS\<close> names, each resolving to an attribute that is not a system
  attribute and whose type has a less-than operator, with pairwise different attribute
  numbers, then \<^verbatim>\<open>CreateStatistics\<close> returns, one row is appended to
  \<^verbatim>\<open>pg_statistic_ext\<close>, the \<^verbatim>\<open>stxkeys\<close> of that row are the attribute numbers of the input
  sorted as signed 16-bit numbers, strictly increasing, and both \<^verbatim>\<open>stxndistinct\<close> and
  \<^verbatim>\<open>stxdependencies\<close> are null. Every reordering of the column list gives the same
  address and the same final state.
\<close>

theorem CreateStatistics_valid_columns:
  assumes ns: "QualifiedNameGetCreationNamespace e (defnames stmt) = Inr (namespaceId, namestr)"
    and fresh: "\<not> SearchSysCacheExists2_STATEXTNAMENSP s (namestrcpy e namestr) namespaceId"
    and rel: "relation_openrv e (relation stmt) ShareUpdateExclusiveLock = Inr rel"
    and kind: "relkind_ok (rd_relkind rel)"
    and cols: "\<forall>k \<in> set (keys stmt). resolves_to e (rd_id rel) k (att k)"
    and dist: "distinct (map (\<lambda>k. attnum (att k)) (keys stmt))"
    and len: "2 \<le> length (keys stmt)" "length (keys stmt) \<le> STATS_MAX_DIMENSIONS e"
    and kinds: "select_kinds e (options stmt) = Inr types"
  shows "\<exists>addr s' row.
           CreateStatistics e stmt s = Inr (addr, s') \<and>
           StatisticExtRelation s' = StatisticExtRelation s @ [row] \<and>
           stxkeys row = sort_key sint (map (\<lambda>k. attnum (att k)) (keys stmt)) \<and>
           sorted_wrt (\<lambda>a b. sint a < sint b) (stxkeys row) \<and>
           set (stxkeys row) = (\<lambda>k. attnum (att k)) ` set (keys stmt) \<and>
           stxndistinct row = None \<and> stxdependencies row = None \<and>
           (\<forall>keys'. mset keys' = mset (keys stmt) \<longrightarrow>
              CreateStatistics e (stmt\<lparr>keys := keys'\<rparr>) s = Inr (addr, s'))"
proof -
  let ?name = "namestrcpy e namestr"
  let ?nums = "\<lambda>ks. map (\<lambda>k. attnum (att k)) ks"
  let ?sorted = "sort_key sint (?nums (keys stmt))"
  let ?res = "write_catalog e rel ?name namespaceId ?sorted types
                (emit [LockRelation (rd_id rel) ShareUpdateExclusiveLock] s)"
  let ?row = "created_row e rel ?name namespaceId ?sorted types s"
  have run: "CreateStatistics e stmt s = Inr ?res"
    using CreateStatistics_name_free [OF ns fresh]
      create_on_relation_valid [OF rel kind cols dist len kinds]
    by simp
  have perm: "CreateStatistics e (stmt\<lparr>keys := keys'\<rparr>) s = Inr ?res"
    if p: "mset keys' = mset (keys stmt)" for keys'
  proof -
    from p have set_eq: "set keys' = set (keys stmt)" by (rule mset_eq_setD)
    from p have len_eq: "length keys' = length (keys stmt)" by (rule mset_eq_length)
    from p have m: "mset (?nums keys') = mset (?nums (keys stmt))" by simp
    have ns': "QualifiedNameGetCreationNamespace e (defnames (stmt\<lparr>keys := keys'\<rparr>)) =
                 Inr (namespaceId, namestr)"
      using ns by simp
    have rel': "relation_openrv e (relation (stmt\<lparr>keys := keys'\<rparr>)) ShareUpdateExclusiveLock =
                  Inr rel"
      using rel by simp
    have cols': "\<forall>k \<in> set (keys (stmt\<lparr>keys := keys'\<rparr>)). resolves_to e (rd_id rel) k (att k)"
      using cols set_eq by simp
    have dist': "distinct (?nums (keys (stmt\<lparr>keys := keys'\<rparr>)))"
      using dist mset_eq_imp_distinct_iff [OF m] by simp
    have len': "2 \<le> length (keys (stmt\<lparr>keys := keys'\<rparr>))"
        "length (keys (stmt\<lparr>keys := keys'\<rparr>)) \<le> STATS_MAX_DIMENSIONS e"
      using len len_eq by simp_all
    have kinds': "select_kinds e (options (stmt\<lparr>keys := keys'\<rparr>)) = Inr types"
      using kinds by simp
    have "sort_key sint (?nums keys') = ?sorted"
      using m by (rule sort_key_sint_perm)
    then show ?thesis
      using CreateStatistics_name_free [OF ns' fresh]
        create_on_relation_valid [OF rel' kind cols' dist' len' kinds']
      by simp
  qed
  have "CreateStatistics e stmt s = Inr (fst ?res, snd ?res)" using run by simp
  moreover have "StatisticExtRelation (snd ?res) = StatisticExtRelation s @ [?row]"
    by (simp add: write_catalog_eq)
  moreover have "stxkeys ?row = ?sorted" by (simp add: created_row_fields)
  moreover have "sorted_wrt (\<lambda>a b. sint a < sint b) (stxkeys ?row)"
    using dist by (simp add: created_row_fields sort_key_sint_strict)
  moreover have "set (stxkeys ?row) = (\<lambda>k. attnum (att k)) ` set (keys stmt)"
    by (simp add: created_row_fields)
  moreover have "stxndistinct ?row = None" "stxdependencies ?row = None"
    by (simp_all add: created_row_fields)
  moreover have "\<forall>keys'. mset keys' = mset (keys stmt) \<longrightarrow>
              CreateStatistics e (stmt\<lparr>keys := keys'\<rparr>) s = Inr (fst ?res, snd ?res)"
    using perm by simp
  ultimately show ?thesis by blast
qed

theorem CreateStatistics_valid_columns_witness:
  "CreateStatistics example_env
     (example_stmt False ''s1'' [''b'', ''a''] [example_option ''dependencies'' ''true''])
     example_state =
   Inr (\<lparr>classId = 3381, objectId = 16501, objectSubId = 0\<rparr>,
        \<lparr>StatisticExtRelation =
           [example_row,
            \<lparr>oid = 16501, stxrelid = 16384, stxname = ''s1'', stxnamespace = 2200,
             stxowner = 10, stxkeys = [1, 2], stxkind = [STATS_EXT_DEPENDENCIES],
             stxndistinct = None, stxdependencies = None\<rparr>],
         trace =
           [LockRelation 16384 ShareUpdateExclusiveLock,
            LockRelation 3381 RowExclusiveLock,
            CatalogTupleInsert
              \<lparr>oid = 16501, stxrelid = 16384, stxname = ''s1'', stxnamespace = 2200,
               stxowner = 10, stxkeys = [1, 2], stxkind = [STATS_EXT_DEPENDENCIES],
               stxndistinct = None, stxdependencies = None\<rparr>,
            UnlockRelation 3381 RowExclusiveLock,
            CacheInvalidateRelcache 16384,
            recordDependencyOn \<lparr>classId = 3381, objectId = 16501, objectSubId = 0\<rparr>
              \<lparr>classId = 1259, objectId = 16384, objectSubId = 0\<rparr> DEPENDENCY_AUTO,
            recordDependencyOn \<lparr>classId = 3381, objectId = 16501, objectSubId = 0\<rparr>
              \<lparr>classId = 2615, objectId = 2200, objectSubId = 0\<rparr> DEPENDENCY_AUTO]\<rparr>) \<and>
   CreateStatistics example_env
     (example_stmt False ''s1'' [''a'', ''b''] [example_option ''dependencies'' ''true''])
     example_state =
   CreateStatistics example_env
     (example_stmt False ''s1'' [''b'', ''a''] [example_option ''dependencies'' ''true''])
     example_state"
proof -
  let ?opts = "[example_option ''dependencies'' ''true'']"
  let ?stmt = "example_stmt False ''s1'' [''b'', ''a''] ?opts"
  have cols: "\<forall>k \<in> set (keys ?stmt). resolves_to example_env
                (rd_id \<lparr>rd_id = 16384, rd_relkind = RELKIND_RELATION, rd_relname = ''t''\<rparr>) k
                (example_attribute k)"
    using example_resolves by (simp add: example_stmt_def)
  have dist: "distinct (map (\<lambda>k. attnum (example_attribute k)) (keys ?stmt))"
    by (simp add: example_stmt_def example_attribute_def example_attributes_def)
  have len: "2 \<le> length (keys ?stmt)" "length (keys ?stmt) \<le> STATS_MAX_DIMENSIONS example_env"
    by (simp_all add: example_stmt_def example_env_def)
  have kinds: "select_kinds example_env (options ?stmt) = Inr [STATS_EXT_DEPENDENCIES]"
    by (simp add: model_defs example_defs)
  from CreateStatistics_valid_columns
         [OF example_name_free example_relation cols dist len kinds]
  obtain addr s' where
    run: "CreateStatistics example_env ?stmt example_state = Inr (addr, s')" and
    perm: "\<forall>keys'. mset keys' = mset (keys ?stmt) \<longrightarrow>
             CreateStatistics example_env (?stmt\<lparr>keys := keys'\<rparr>) example_state = Inr (addr, s')"
    by blast
  have "mset [''a'', ''b''] = mset (keys ?stmt)" by (simp add: example_stmt_def)
  with perm have "CreateStatistics example_env (?stmt\<lparr>keys := [''a'', ''b'']\<rparr>) example_state =
                    Inr (addr, s')"
    by blast
  moreover have "?stmt\<lparr>keys := [''a'', ''b'']\<rparr> = example_stmt False ''s1'' [''a'', ''b''] ?opts"
    by (simp add: example_stmt_def)
  ultimately have same: "CreateStatistics example_env
     (example_stmt False ''s1'' [''a'', ''b''] ?opts) example_state =
     CreateStatistics example_env ?stmt example_state"
    using run by simp
  have "CreateStatistics example_env ?stmt example_state =
   Inr (\<lparr>classId = 3381, objectId = 16501, objectSubId = 0\<rparr>,
        \<lparr>StatisticExtRelation =
           [example_row,
            \<lparr>oid = 16501, stxrelid = 16384, stxname = ''s1'', stxnamespace = 2200,
             stxowner = 10, stxkeys = [1, 2], stxkind = [STATS_EXT_DEPENDENCIES],
             stxndistinct = None, stxdependencies = None\<rparr>],
         trace =
           [LockRelation 16384 ShareUpdateExclusiveLock,
            LockRelation 3381 RowExclusiveLock,
            CatalogTupleInsert
              \<lparr>oid = 16501, stxrelid = 16384, stxname = ''s1'', stxnamespace = 2200,
               stxowner = 10, stxkeys = [1, 2], stxkind = [STATS_EXT_DEPENDENCIES],
               stxndistinct = None, stxdependencies = None\<rparr>,
            UnlockRelation 3381 RowExclusiveLock,
            CacheInvalidateRelcache 16384,
            recordDependencyOn \<lparr>classId = 3381, objectId = 16501, objectSubId = 0\<rparr>
              \<lparr>classId = 1259, objectId = 16384, objectSubId = 0\<rparr> DEPENDENCY_AUTO,
            recordDependencyOn \<lparr>classId = 3381, objectId = 16501, objectSubId = 0\<rparr>
              \<lparr>classId = 2615, objectId = 2200, objectSubId = 0\<rparr> DEPENDENCY_AUTO]\<rparr>)"
    by (simp add: model_defs example_defs)
  with same show ?thesis by simp
qed

lemma example_create:
  "CreateStatistics example_env (example_stmt False ''s1'' [''a'', ''b''] []) example_state =
   Inr (\<lparr>classId = 3381, objectId = 16501, objectSubId = 0\<rparr>,
        \<lparr>StatisticExtRelation =
           [example_row,
            \<lparr>oid = 16501, stxrelid = 16384, stxname = ''s1'', stxnamespace = 2200,
             stxowner = 10, stxkeys = [1, 2],
             stxkind = [STATS_EXT_NDISTINCT, STATS_EXT_DEPENDENCIES],
             stxndistinct = None, stxdependencies = None\<rparr>],
         trace =
           [LockRelation 16384 ShareUpdateExclusiveLock,
            LockRelation 3381 RowExclusiveLock,
            CatalogTupleInsert
              \<lparr>oid = 16501, stxrelid = 16384, stxname = ''s1'', stxnamespace = 2200,
               stxowner = 10, stxkeys = [1, 2],
               stxkind = [STATS_EXT_NDISTINCT, STATS_EXT_DEPENDENCIES],
               stxndistinct = None, stxdependencies = None\<rparr>,
            UnlockRelation 3381 RowExclusiveLock,
            CacheInvalidateRelcache 16384,
            recordDependencyOn \<lparr>classId = 3381, objectId = 16501, objectSubId = 0\<rparr>
              \<lparr>classId = 1259, objectId = 16384, objectSubId = 0\<rparr> DEPENDENCY_AUTO,
            recordDependencyOn \<lparr>classId = 3381, objectId = 16501, objectSubId = 0\<rparr>
              \<lparr>classId = 2615, objectId = 2200, objectSubId = 0\<rparr> DEPENDENCY_AUTO]\<rparr>)"
  by (simp add: model_defs example_defs)

subsection \<open>The kinds stored\<close>

lemma ntypes_assertion_enabled_types:
  "ntypes_assertion (enabled_types b) = (fst b \<or> snd b)"
  by (simp add: ntypes_assertion_def enabled_types_def)

lemma select_kinds_flags:
  assumes "parse_options e opts (False, False, False) = Inr flags"
  shows "select_kinds e opts =
           (if USE_ASSERT_CHECKING e \<and>
               \<not> (fst (default_kinds flags) \<or> snd (default_kinds flags)) then
              Inl (FailedAssertion ''ntypes > 0 && ntypes <= lengthof(types)'')
            else Inr (enabled_types (default_kinds flags)))"
  using assms
  by (simp add: select_kinds_def requested_kinds_def ntypes_assertion_enabled_types)

lemma create_with_kinds:
  assumes ns: "QualifiedNameGetCreationNamespace e (defnames stmt) = Inr (namespaceId, namestr)"
    and fresh: "\<not> SearchSysCacheExists2_STATEXTNAMENSP s (namestrcpy e namestr) namespaceId"
    and rel: "relation_openrv e (relation stmt) ShareUpdateExclusiveLock = Inr rel"
    and kind: "relkind_ok (rd_relkind rel)"
    and cols: "\<forall>k \<in> set (keys stmt). resolves_to e (rd_id rel) k (att k)"
    and dist: "distinct (map (\<lambda>k. attnum (att k)) (keys stmt))"
    and len: "2 \<le> length (keys stmt)" "length (keys stmt) \<le> STATS_MAX_DIMENSIONS e"
  shows "select_kinds e (options stmt) = Inr types \<Longrightarrow>
           \<exists>addr s' row. CreateStatistics e stmt s = Inr (addr, s') \<and>
              StatisticExtRelation s' = StatisticExtRelation s @ [row] \<and> stxkind row = types"
    and "select_kinds e (options stmt) = Inl err \<Longrightarrow> CreateStatistics e stmt s = Inl err"
proof -
  assume sel: "select_kinds e (options stmt) = Inr types"
  let ?res = "write_catalog e rel (namestrcpy e namestr) namespaceId
                (sort_key sint (map (\<lambda>k. attnum (att k)) (keys stmt))) types
                (emit [LockRelation (rd_id rel) ShareUpdateExclusiveLock] s)"
  let ?row = "created_row e rel (namestrcpy e namestr) namespaceId
                (sort_key sint (map (\<lambda>k. attnum (att k)) (keys stmt))) types s"
  have "CreateStatistics e stmt s = Inr (fst ?res, snd ?res)"
    using CreateStatistics_name_free [OF ns fresh]
      create_on_relation_valid [OF rel kind cols dist len sel]
    by simp
  moreover have "StatisticExtRelation (snd ?res) = StatisticExtRelation s @ [?row]"
    by (simp add: write_catalog_eq)
  moreover have "stxkind ?row = types" by (simp add: created_row_fields)
  ultimately show "\<exists>addr s' row. CreateStatistics e stmt s = Inr (addr, s') \<and>
              StatisticExtRelation s' = StatisticExtRelation s @ [row] \<and> stxkind row = types"
    by blast
next
  assume sel: "select_kinds e (options stmt) = Inl err"
  have "resolve_keys e (rd_id rel) (keys stmt) [] = Inr (map (\<lambda>k. attnum (att k)) (keys stmt))"
    using resolve_keys_valid [of "keys stmt" e "rd_id rel" att "[]"] cols len by simp
  then show "CreateStatistics e stmt s = Inl err"
    using CreateStatistics_name_free [OF ns fresh] dist len sel
    by (simp add: create_on_relation_stages [OF rel kind] normalize_keys_eq)
qed

text \<open>
  Claim C4. Take a request that passes everything before the options: the name resolves
  and is not taken, the relation is accepted, and the column list is valid. With no
  option, the option step selects both kinds and \<^verbatim>\<open>CreateStatistics\<close> inserts a row whose
  \<^verbatim>\<open>stxkind\<close> is \<^verbatim>\<open>STATS_EXT_NDISTINCT\<close>, \<^verbatim>\<open>STATS_EXT_DEPENDENCIES\<close>. With the single option
  \<^verbatim>\<open>dependencies\<close> whose value reads as true, it is exactly \<^verbatim>\<open>STATS_EXT_DEPENDENCIES\<close>.
  With any non-empty list of options that the loop accepts, \<^verbatim>\<open>requested_type\<close> is set and
  the default is not applied: the kinds are those of the two \<^verbatim>\<open>build_\<close> flags, and they
  are the \<^verbatim>\<open>stxkind\<close> of the row inserted; when both flags are false, no kind is selected,
  and the call inserts a row with an empty \<^verbatim>\<open>stxkind\<close> where assertions are not checked
  and stops at the assertion of line 235 where they are. Recognised options that all
  read as false leave both flags false.
\<close>

theorem kind_selection:
  assumes ns: "QualifiedNameGetCreationNamespace e (defnames stmt) = Inr (namespaceId, namestr)"
    and fresh: "\<not> SearchSysCacheExists2_STATEXTNAMENSP s (namestrcpy e namestr) namespaceId"
    and rel: "relation_openrv e (relation stmt) ShareUpdateExclusiveLock = Inr rel"
    and kind: "relkind_ok (rd_relkind rel)"
    and cols: "\<forall>k \<in> set (keys stmt). resolves_to e (rd_id rel) k (att k)"
    and dist: "distinct (map (\<lambda>k. attnum (att k)) (keys stmt))"
    and len: "2 \<le> length (keys stmt)" "length (keys stmt) \<le> STATS_MAX_DIMENSIONS e"
  shows
    "(options stmt = [] \<longrightarrow>
        select_kinds e (options stmt) = Inr [STATS_EXT_NDISTINCT, STATS_EXT_DEPENDENCIES] \<and>
        (\<exists>addr s' row. CreateStatistics e stmt s = Inr (addr, s') \<and>
           StatisticExtRelation s' = StatisticExtRelation s @ [row] \<and>
           stxkind row = [STATS_EXT_NDISTINCT, STATS_EXT_DEPENDENCIES])) \<and>
     (\<forall>opt. options stmt = [opt] \<and> defname opt = ''dependencies'' \<and>
        defGetBoolean e opt = Inr True \<longrightarrow>
        select_kinds e (options stmt) = Inr [STATS_EXT_DEPENDENCIES] \<and>
        (\<exists>addr s' row. CreateStatistics e stmt s = Inr (addr, s') \<and>
           StatisticExtRelation s' = StatisticExtRelation s @ [row] \<and>
           stxkind row = [STATS_EXT_DEPENDENCIES])) \<and>
     (\<forall>bn bd rt. options stmt \<noteq> [] \<and>
        parse_options e (options stmt) (False, False, False) = Inr (bn, bd, rt) \<longrightarrow>
        rt \<and> requested_kinds e (options stmt) = Inr (enabled_types (bn, bd)) \<and>
        (bn \<or> bd \<longrightarrow>
           select_kinds e (options stmt) = Inr (enabled_types (bn, bd)) \<and>
           (\<exists>addr s' row. CreateStatistics e stmt s = Inr (addr, s') \<and>
              StatisticExtRelation s' = StatisticExtRelation s @ [row] \<and>
              stxkind row = enabled_types (bn, bd))) \<and>
        (\<not> bn \<and> \<not> bd \<and> \<not> USE_ASSERT_CHECKING e \<longrightarrow>
           select_kinds e (options stmt) = Inr [] \<and>
           (\<exists>addr s' row. CreateStatistics e stmt s = Inr (addr, s') \<and>
              StatisticExtRelation s' = StatisticExtRelation s @ [row] \<and>
              stxkind row = [])) \<and>
        (\<not> bn \<and> \<not> bd \<and> USE_ASSERT_CHECKING e \<longrightarrow>
           select_kinds e (options stmt) =
             Inl (FailedAssertion ''ntypes > 0 && ntypes <= lengthof(types)'') \<and>
           CreateStatistics e stmt s =
             Inl (FailedAssertion ''ntypes > 0 && ntypes <= lengthof(types)''))) \<and>
     (options stmt \<noteq> [] \<and>
      (\<forall>opt \<in> set (options stmt).
          (defname opt = ''ndistinct'' \<or> defname opt = ''dependencies'') \<and>
          defGetBoolean e opt = Inr False) \<longrightarrow>
        requested_kinds e (options stmt) = Inr [] \<and>
        parse_options e (options stmt) (False, False, False) = Inr (False, False, True))"
proof -
  note run = create_with_kinds [OF ns fresh rel kind cols dist len]
  have none: "select_kinds e (options stmt) = Inr [STATS_EXT_NDISTINCT, STATS_EXT_DEPENDENCIES]"
    if "options stmt = []"
    using that select_kinds_flags [of e "[]" "(False, False, False)"]
    by (simp add: default_kinds_def enabled_types_def)
  have dep: "select_kinds e (options stmt) = Inr [STATS_EXT_DEPENDENCIES]"
    if "options stmt = [opt] \<and> defname opt = ''dependencies'' \<and> defGetBoolean e opt = Inr True"
    for opt
    using that select_kinds_flags [of e "[opt]" "(False, True, True)"]
    by (simp add: default_kinds_def enabled_types_def)
  have flags: "rt \<and> requested_kinds e (options stmt) = Inr (enabled_types (bn, bd)) \<and>
      select_kinds e (options stmt) =
        (if USE_ASSERT_CHECKING e \<and> \<not> (bn \<or> bd) then
           Inl (FailedAssertion ''ntypes > 0 && ntypes <= lengthof(types)'')
         else Inr (enabled_types (bn, bd)))"
    if a: "options stmt \<noteq> [] \<and>
           parse_options e (options stmt) (False, False, False) = Inr (bn, bd, rt)"
    for bn bd rt
  proof -
    from a have rt: "rt"
      using parse_options_requested [of e "options stmt" False False False bn bd rt] by simp
    with a show ?thesis
      using select_kinds_flags [of e "options stmt" "(bn, bd, rt)"]
      by (simp add: requested_kinds_def default_kinds_def)
  qed
  have allfalse: "parse_options e (options stmt) (False, False, False) = Inr (False, False, True)"
    if "options stmt \<noteq> [] \<and>
      (\<forall>opt \<in> set (options stmt).
          (defname opt = ''ndistinct'' \<or> defname opt = ''dependencies'') \<and>
          defGetBoolean e opt = Inr False)"
    using that parse_options_all_false [of "options stmt" e False] by simp
  show ?thesis
  proof (intro conjI allI impI)
    assume "options stmt = []"
    then show "select_kinds e (options stmt) = Inr [STATS_EXT_NDISTINCT, STATS_EXT_DEPENDENCIES]"
      by (rule none)
    then show "\<exists>addr s' row. CreateStatistics e stmt s = Inr (addr, s') \<and>
           StatisticExtRelation s' = StatisticExtRelation s @ [row] \<and>
           stxkind row = [STATS_EXT_NDISTINCT, STATS_EXT_DEPENDENCIES]"
      by (rule run(1))
  next
    fix opt
    assume "options stmt = [opt] \<and> defname opt = ''dependencies'' \<and>
        defGetBoolean e opt = Inr True"
    then show "select_kinds e (options stmt) = Inr [STATS_EXT_DEPENDENCIES]"
      by (rule dep)
    then show "\<exists>addr s' row. CreateStatistics e stmt s = Inr (addr, s') \<and>
           StatisticExtRelation s' = StatisticExtRelation s @ [row] \<and>
           stxkind row = [STATS_EXT_DEPENDENCIES]"
      by (rule run(1))
  next
    fix bn bd rt
    assume a: "options stmt \<noteq> [] \<and>
        parse_options e (options stmt) (False, False, False) = Inr (bn, bd, rt)"
    from flags [OF a] show "rt" by simp
    from flags [OF a] show "requested_kinds e (options stmt) = Inr (enabled_types (bn, bd))"
      by simp
    {
      assume "bn \<or> bd"
      with flags [OF a] show "select_kinds e (options stmt) = Inr (enabled_types (bn, bd))"
        by simp
      then show "\<exists>addr s' row. CreateStatistics e stmt s = Inr (addr, s') \<and>
              StatisticExtRelation s' = StatisticExtRelation s @ [row] \<and>
              stxkind row = enabled_types (bn, bd)"
        by (rule run(1))
    }
    {
      assume "\<not> bn \<and> \<not> bd \<and> \<not> USE_ASSERT_CHECKING e"
      with flags [OF a] show "select_kinds e (options stmt) = Inr []"
        by (simp add: enabled_types_def)
      then show "\<exists>addr s' row. CreateStatistics e stmt s = Inr (addr, s') \<and>
              StatisticExtRelation s' = StatisticExtRelation s @ [row] \<and>
              stxkind row = []"
        by (rule run(1))
    }
    {
      assume "\<not> bn \<and> \<not> bd \<and> USE_ASSERT_CHECKING e"
      with flags [OF a] show "select_kinds e (options stmt) =
             Inl (FailedAssertion ''ntypes > 0 && ntypes <= lengthof(types)'')"
        by simp
      then show "CreateStatistics e stmt s =
             Inl (FailedAssertion ''ntypes > 0 && ntypes <= lengthof(types)'')"
        by (rule run(2))
    }
  next
    assume a: "options stmt \<noteq> [] \<and>
      (\<forall>opt \<in> set (options stmt).
          (defname opt = ''ndistinct'' \<or> defname opt = ''dependencies'') \<and>
          defGetBoolean e opt = Inr False)"
    from allfalse [OF a]
    show "parse_options e (options stmt) (False, False, False) = Inr (False, False, True)" .
    then show "requested_kinds e (options stmt) = Inr []"
      by (simp add: requested_kinds_def default_kinds_def enabled_types_def)
  qed
qed

theorem kind_selection_witness:
  "stxkind (last (StatisticExtRelation (snd (projr (CreateStatistics example_env
      (example_stmt False ''s1'' [''a'', ''b''] []) example_state))))) =
     [STATS_EXT_NDISTINCT, STATS_EXT_DEPENDENCIES] \<and>
   stxkind (last (StatisticExtRelation (snd (projr (CreateStatistics example_env
      (example_stmt False ''s1'' [''a'', ''b''] [example_option ''dependencies'' ''true''])
      example_state))))) = [STATS_EXT_DEPENDENCIES] \<and>
   stxkind (last (StatisticExtRelation (snd (projr (CreateStatistics example_env
      (example_stmt False ''s1'' [''a'', ''b'']
         [example_option ''dependencies'' ''true'', example_option ''ndistinct'' ''false''])
      example_state))))) = [STATS_EXT_DEPENDENCIES] \<and>
   CreateStatistics example_env
     (example_stmt False ''s1'' [''a'', ''b'']
        [example_option ''dependencies'' ''false'', example_option ''ndistinct'' ''false''])
     example_state =
     Inl (FailedAssertion ''ntypes > 0 && ntypes <= lengthof(types)'') \<and>
   stxkind (last (StatisticExtRelation (snd (projr (CreateStatistics
      (example_env\<lparr>USE_ASSERT_CHECKING := False\<rparr>)
      (example_stmt False ''s1'' [''a'', ''b'']
         [example_option ''dependencies'' ''false'', example_option ''ndistinct'' ''false''])
      example_state))))) = []"
proof -
  let ?rel = "\<lparr>rd_id = 16384, rd_relkind = RELKIND_RELATION, rd_relname = ''t''\<rparr>"
  let ?ks = "[''a'', ''b'']"
  let ?dt = "example_option ''dependencies'' ''true''"
  let ?df = "example_option ''dependencies'' ''false''"
  let ?nf = "example_option ''ndistinct'' ''false''"
  let ?e' = "example_env\<lparr>USE_ASSERT_CHECKING := False\<rparr>"
  have cols: "\<forall>k \<in> set (keys (example_stmt False ''s1'' ?ks opts)).
                resolves_to example_env (rd_id ?rel) k (example_attribute k)" for opts
    using example_resolves by (simp add: example_stmt_def)
  have dist: "distinct (map (\<lambda>k. attnum (example_attribute k))
                (keys (example_stmt False ''s1'' ?ks opts)))" for opts
    by (simp add: example_stmt_def example_attribute_def example_attributes_def)
  have len: "2 \<le> length (keys (example_stmt False ''s1'' ?ks opts))"
      "length (keys (example_stmt False ''s1'' ?ks opts)) \<le> STATS_MAX_DIMENSIONS example_env"
    for opts
    by (simp_all add: example_stmt_def example_env_def)
  have opts: "options (example_stmt False ''s1'' ?ks os) = os" for os
    by (simp add: example_stmt_def)
  have pick: "stxkind (last (StatisticExtRelation (snd (projr r)))) = types"
    if "\<exists>addr s' row. r = Inr (addr, s') \<and>
          StatisticExtRelation s' = StatisticExtRelation example_state @ [row] \<and>
          stxkind row = types"
    for r :: "error + ObjectAddress \<times> state" and types
    using that by auto
  note k0 = kind_selection [OF example_name_free(1) [of False ?ks "[]"] example_name_free(2)
    example_relation(1) [of False "''s1''" ?ks "[]"] example_relation(2)
    cols [of "[]"] dist [of "[]"] len [of "[]"]]
  note k1 = kind_selection [OF example_name_free(1) [of False ?ks "[?dt]"] example_name_free(2)
    example_relation(1) [of False "''s1''" ?ks "[?dt]"] example_relation(2)
    cols [of "[?dt]"] dist [of "[?dt]"] len [of "[?dt]"]]
  note k2 = kind_selection [OF example_name_free(1) [of False ?ks "[?dt, ?nf]"]
    example_name_free(2)
    example_relation(1) [of False "''s1''" ?ks "[?dt, ?nf]"] example_relation(2)
    cols [of "[?dt, ?nf]"] dist [of "[?dt, ?nf]"] len [of "[?dt, ?nf]"]]
  note k3 = kind_selection [OF example_name_free(1) [of False ?ks "[?df, ?nf]"]
    example_name_free(2)
    example_relation(1) [of False "''s1''" ?ks "[?df, ?nf]"] example_relation(2)
    cols [of "[?df, ?nf]"] dist [of "[?df, ?nf]"] len [of "[?df, ?nf]"]]
  have r0: "stxkind (last (StatisticExtRelation (snd (projr (CreateStatistics example_env
      (example_stmt False ''s1'' ?ks []) example_state))))) =
      [STATS_EXT_NDISTINCT, STATS_EXT_DEPENDENCIES]"
    using k0 opts [of "[]"] by (intro pick) blast
  have "options (example_stmt False ''s1'' ?ks [?dt]) = [?dt] \<and>
        defname ?dt = ''dependencies'' \<and> defGetBoolean example_env ?dt = Inr True"
    by (simp add: opts example_defGetBoolean_simps)
  with k1 have r1: "stxkind (last (StatisticExtRelation (snd (projr (CreateStatistics example_env
      (example_stmt False ''s1'' ?ks [?dt]) example_state))))) = [STATS_EXT_DEPENDENCIES]"
    by (intro pick) blast
  have p2: "options (example_stmt False ''s1'' ?ks [?dt, ?nf]) \<noteq> [] \<and>
        parse_options example_env (options (example_stmt False ''s1'' ?ks [?dt, ?nf]))
          (False, False, False) = Inr (False, True, True)"
    by (simp add: opts example_defGetBoolean_simps)
  with k2 have "\<exists>addr s' row. CreateStatistics example_env
      (example_stmt False ''s1'' ?ks [?dt, ?nf]) example_state = Inr (addr, s') \<and>
      StatisticExtRelation s' = StatisticExtRelation example_state @ [row] \<and>
      stxkind row = enabled_types (False, True)"
    by blast
  then have r2: "stxkind (last (StatisticExtRelation (snd (projr (CreateStatistics example_env
      (example_stmt False ''s1'' ?ks [?dt, ?nf]) example_state))))) = [STATS_EXT_DEPENDENCIES]"
    using pick [of _ "enabled_types (False, True)"] by (simp add: enabled_types_def)
  have p3: "options (example_stmt False ''s1'' ?ks [?df, ?nf]) \<noteq> [] \<and>
        parse_options example_env (options (example_stmt False ''s1'' ?ks [?df, ?nf]))
          (False, False, False) = Inr (False, False, True)"
    by (simp add: opts example_defGetBoolean_simps)
  have "USE_ASSERT_CHECKING example_env" by (simp add: example_env_def)
  with k3 p3 have r3: "CreateStatistics example_env
      (example_stmt False ''s1'' ?ks [?df, ?nf]) example_state =
      Inl (FailedAssertion ''ntypes > 0 && ntypes <= lengthof(types)'')"
    by blast
  have ns': "QualifiedNameGetCreationNamespace ?e'
               (defnames (example_stmt False ''s1'' ?ks [?df, ?nf])) = Inr (2200, ''s1'')"
    by (simp add: example_env_def example_stmt_def)
  have fresh': "\<not> SearchSysCacheExists2_STATEXTNAMENSP example_state (namestrcpy ?e' ''s1'') 2200"
    by (simp add: example_env_def example_state_def example_row_def
          SearchSysCacheExists2_STATEXTNAMENSP_def)
  have rel': "relation_openrv ?e' (relation (example_stmt False ''s1'' ?ks [?df, ?nf]))
                ShareUpdateExclusiveLock = Inr ?rel"
    by (simp add: example_env_def example_stmt_def)
  have cols': "\<forall>k \<in> set (keys (example_stmt False ''s1'' ?ks [?df, ?nf])).
                 resolves_to ?e' (rd_id ?rel) k (example_attribute k)"
    by (simp add: example_stmt_def resolves_to_def example_env_def example_attribute_def
          example_attributes_def InvalidOid_def)
  have len': "length (keys (example_stmt False ''s1'' ?ks [?df, ?nf])) \<le> STATS_MAX_DIMENSIONS ?e'"
    by (simp add: example_stmt_def example_env_def)
  note k4 = kind_selection [OF ns' fresh' rel' example_relation(2) cols'
    dist [of "[?df, ?nf]"] len(1) [of "[?df, ?nf]"] len']
  have p4: "options (example_stmt False ''s1'' ?ks [?df, ?nf]) \<noteq> [] \<and>
        parse_options ?e' (options (example_stmt False ''s1'' ?ks [?df, ?nf]))
          (False, False, False) = Inr (False, False, True)"
    by (simp add: opts example_env_def example_defGetBoolean_def example_option_def)
  have "\<not> USE_ASSERT_CHECKING ?e'" by simp
  with k4 p4 have "\<exists>addr s' row. CreateStatistics ?e'
      (example_stmt False ''s1'' ?ks [?df, ?nf]) example_state = Inr (addr, s') \<and>
      StatisticExtRelation s' = StatisticExtRelation example_state @ [row] \<and>
      stxkind row = []"
    by blast
  then have r4: "stxkind (last (StatisticExtRelation (snd (projr (CreateStatistics ?e'
      (example_stmt False ''s1'' ?ks [?df, ?nf]) example_state))))) = []"
    by (rule pick)
  from r0 r1 r2 r3 r4 show ?thesis by simp
qed

subsection \<open>Dependencies\<close>

lemma recorded_dependencies_append:
  "recorded_dependencies (xs @ ys) = recorded_dependencies xs @ recorded_dependencies ys"
  by (induction xs rule: recorded_dependencies.induct) simp_all

lemma create_on_relation_returns:
  assumes "create_on_relation e stmt name namespaceId s = Inr res"
  shows "\<exists>rel attnums types.
           relation_openrv e (relation stmt) ShareUpdateExclusiveLock = Inr rel \<and>
           res = write_catalog e rel name namespaceId attnums types
                   (emit [LockRelation (rd_id rel) ShareUpdateExclusiveLock] s)"
  using assms
  by (auto simp add: create_on_relation_def Let_def split: sum.splits if_splits)

text \<open>
  Claim C8. Whenever the name is not taken and \<^verbatim>\<open>CreateStatistics\<close> returns, one row has
  been appended to \<^verbatim>\<open>pg_statistic_ext\<close>, the address returned is that of the new row, and
  the call has recorded exactly two dependencies, in this order: from the new object to
  the relation the statement names (the row's \<^verbatim>\<open>stxrelid\<close>) and from the new object to
  the namespace of its name (the row's \<^verbatim>\<open>stxnamespace\<close>), both \<^verbatim>\<open>DEPENDENCY_AUTO\<close>.
\<close>

theorem CreateStatistics_dependencies:
  assumes ns: "QualifiedNameGetCreationNamespace e (defnames stmt) = Inr (namespaceId, namestr)"
    and fresh: "\<not> SearchSysCacheExists2_STATEXTNAMENSP s (namestrcpy e namestr) namespaceId"
    and run: "CreateStatistics e stmt s = Inr (addr, s')"
  shows "\<exists>rel row.
           relation_openrv e (relation stmt) ShareUpdateExclusiveLock = Inr rel \<and>
           StatisticExtRelation s' = StatisticExtRelation s @ [row] \<and>
           stxrelid row = rd_id rel \<and> stxnamespace row = namespaceId \<and>
           addr = ObjectAddressSet (StatisticExtRelationId e) (oid row) \<and>
           recorded_dependencies (trace s') =
             recorded_dependencies (trace s) @
               [(addr, ObjectAddressSet (RelationRelationId e) (rd_id rel), DEPENDENCY_AUTO),
                (addr, ObjectAddressSet (NamespaceRelationId e) namespaceId, DEPENDENCY_AUTO)]"
proof -
  from run CreateStatistics_name_free [OF ns fresh]
  have "create_on_relation e stmt (namestrcpy e namestr) namespaceId s = Inr (addr, s')"
    by simp
  from create_on_relation_returns [OF this] obtain rel attnums types where
    rel: "relation_openrv e (relation stmt) ShareUpdateExclusiveLock = Inr rel" and
    res: "(addr, s') = write_catalog e rel (namestrcpy e namestr) namespaceId attnums types
                   (emit [LockRelation (rd_id rel) ShareUpdateExclusiveLock] s)"
    by blast
  let ?row = "created_row e rel (namestrcpy e namestr) namespaceId attnums types s"
  from res have addr: "addr = ObjectAddressSet (StatisticExtRelationId e) (oid ?row)"
    by (simp add: write_catalog_eq created_row_fields)
  from res have rows: "StatisticExtRelation s' = StatisticExtRelation s @ [?row]"
    by (simp add: write_catalog_eq)
  from res have tr: "trace s' = trace s @
       [LockRelation (rd_id rel) ShareUpdateExclusiveLock,
        LockRelation (StatisticExtRelationId e) RowExclusiveLock,
        CatalogTupleInsert ?row,
        UnlockRelation (StatisticExtRelationId e) RowExclusiveLock,
        CacheInvalidateRelcache (rd_id rel),
        recordDependencyOn addr
          (ObjectAddressSet (RelationRelationId e) (rd_id rel)) DEPENDENCY_AUTO,
        recordDependencyOn addr
          (ObjectAddressSet (NamespaceRelationId e) namespaceId) DEPENDENCY_AUTO]"
    by (simp add: write_catalog_eq)
  have deps: "recorded_dependencies (trace s') =
             recorded_dependencies (trace s) @
               [(addr, ObjectAddressSet (RelationRelationId e) (rd_id rel), DEPENDENCY_AUTO),
                (addr, ObjectAddressSet (NamespaceRelationId e) namespaceId, DEPENDENCY_AUTO)]"
    by (simp add: tr recorded_dependencies_append)
  have "stxrelid ?row = rd_id rel" "stxnamespace ?row = namespaceId"
    by (simp_all add: created_row_def form_tuple_def)
  with rel rows addr deps show ?thesis by blast
qed

theorem CreateStatistics_dependencies_witness:
  "\<not> SearchSysCacheExists2_STATEXTNAMENSP example_state (namestrcpy example_env ''s1'') 2200 \<and>
   fst (projr (CreateStatistics example_env
      (example_stmt False ''s1'' [''a'', ''b''] []) example_state)) =
     \<lparr>classId = 3381, objectId = 16501, objectSubId = 0\<rparr> \<and>
   recorded_dependencies
     (trace (snd (projr (CreateStatistics example_env
        (example_stmt False ''s1'' [''a'', ''b''] []) example_state)))) =
     [(\<lparr>classId = 3381, objectId = 16501, objectSubId = 0\<rparr>,
       \<lparr>classId = 1259, objectId = 16384, objectSubId = 0\<rparr>, DEPENDENCY_AUTO),
      (\<lparr>classId = 3381, objectId = 16501, objectSubId = 0\<rparr>,
       \<lparr>classId = 2615, objectId = 2200, objectSubId = 0\<rparr>, DEPENDENCY_AUTO)]"
proof -
  let ?addr = "\<lparr>classId = 3381, objectId = 16501, objectSubId = 0\<rparr>"
  let ?s' = "snd (projr (CreateStatistics example_env
               (example_stmt False ''s1'' [''a'', ''b''] []) example_state))"
  have run: "CreateStatistics example_env (example_stmt False ''s1'' [''a'', ''b''] [])
               example_state = Inr (?addr, ?s')"
    by (simp add: example_create)
  from CreateStatistics_dependencies [OF example_name_free run]
  obtain rel where
    rel: "relation_openrv example_env (relation (example_stmt False ''s1'' [''a'', ''b''] []))
            ShareUpdateExclusiveLock = Inr rel" and
    deps: "recorded_dependencies (trace ?s') =
       recorded_dependencies (trace example_state) @
         [(?addr, ObjectAddressSet (RelationRelationId example_env) (rd_id rel), DEPENDENCY_AUTO),
          (?addr, ObjectAddressSet (NamespaceRelationId example_env) 2200, DEPENDENCY_AUTO)]"
    by blast
  from rel have "rd_id rel = 16384" by (auto simp add: example_relation(1))
  with deps have "recorded_dependencies (trace ?s') =
     [(?addr, \<lparr>classId = 1259, objectId = 16384, objectSubId = 0\<rparr>, DEPENDENCY_AUTO),
      (?addr, \<lparr>classId = 2615, objectId = 2200, objectSubId = 0\<rparr>, DEPENDENCY_AUTO)]"
    by (simp add: ObjectAddressSet_def example_state_def example_env_def)
  with example_name_free(2) show ?thesis by (simp add: example_create)
qed

subsection \<open>Arity and duplicates\<close>

text \<open>
  Claim C10. When the name is not taken and the relation is accepted, a column list
  longer than \<^verbatim>\<open>STATS_MAX_DIMENSIONS\<close> whose first \<^verbatim>\<open>STATS_MAX_DIMENSIONS + 1\<close> names
  pass the three checks of the loop fails with \<^verbatim>\<open>ERRCODE_TOO_MANY_COLUMNS\<close>. Nothing is
  assumed about the names being different, nor about the names after these: the bound
  is checked inside the loop, the duplicates only after it.
\<close>

theorem TooManyColumns_before_duplicates:
  assumes ns: "QualifiedNameGetCreationNamespace e (defnames stmt) = Inr (namespaceId, namestr)"
    and fresh: "\<not> SearchSysCacheExists2_STATEXTNAMENSP s (namestrcpy e namestr) namespaceId"
    and rel: "relation_openrv e (relation stmt) ShareUpdateExclusiveLock = Inr rel"
    and kind: "relkind_ok (rd_relkind rel)"
    and long: "STATS_MAX_DIMENSIONS e < length (keys stmt)"
    and cols: "\<forall>k \<in> set (take (Suc (STATS_MAX_DIMENSIONS e)) (keys stmt)).
                 resolves_to e (rd_id rel) k (att k)"
  shows "CreateStatistics e stmt s =
           Inl (Ereport ERRCODE_TOO_MANY_COLUMNS
                  ''cannot have more than %d columns in statistics''
                  [D (STATS_MAX_DIMENSIONS e)])"
proof -
  have "resolve_keys e (rd_id rel) (keys stmt) [] =
          Inl (Ereport ERRCODE_TOO_MANY_COLUMNS
                 ''cannot have more than %d columns in statistics''
                 [D (STATS_MAX_DIMENSIONS e)])"
    using resolve_keys_too_many [of e "[]" "keys stmt" "rd_id rel" att] cols long by simp
  then show ?thesis
    using CreateStatistics_name_free [OF ns fresh] create_on_relation_stages [OF rel kind]
    by simp
qed

theorem TooManyColumns_before_duplicates_witness:
  "CreateStatistics example_env
     (example_stmt False ''s1''
        [''a'', ''b'', ''a'', ''c'', ''d'', ''e'', ''f'', ''g'', ''h'', ''nosuch''] [])
     example_state =
   Inl (Ereport ERRCODE_TOO_MANY_COLUMNS ''cannot have more than %d columns in statistics'' [D 8])"
proof -
  let ?stmt = "example_stmt False ''s1''
        [''a'', ''b'', ''a'', ''c'', ''d'', ''e'', ''f'', ''g'', ''h'', ''nosuch''] []"
  have long: "STATS_MAX_DIMENSIONS example_env < length (keys ?stmt)"
    by (simp add: example_env_def example_stmt_def)
  have cols: "\<forall>k \<in> set (take (Suc (STATS_MAX_DIMENSIONS example_env)) (keys ?stmt)).
                 resolves_to example_env
                   (rd_id \<lparr>rd_id = 16384, rd_relkind = RELKIND_RELATION, rd_relname = ''t''\<rparr>) k
                   (example_attribute k)"
    using example_resolves by (simp add: example_env_def example_stmt_def)
  from TooManyColumns_before_duplicates [OF example_name_free example_relation long cols]
  show ?thesis by (simp add: example_env_def)
qed

text \<open>
  Claim C5, as stated, says that a column list naming a column twice always fails with
  \<^verbatim>\<open>ERRCODE_DUPLICATE_COLUMN\<close>. With nine columns, the first of them repeated at the
  end, and a bound of eight, the error is \<^verbatim>\<open>ERRCODE_TOO_MANY_COLUMNS\<close>.
\<close>

theorem arity_and_duplicates_counterexample:
  "CreateStatistics example_env
     (example_stmt False ''s1'' [''a'', ''b'', ''c'', ''d'', ''e'', ''f'', ''g'', ''h'', ''a''] [])
     example_state =
     Inl (Ereport ERRCODE_TOO_MANY_COLUMNS
            ''cannot have more than %d columns in statistics'' [D 8]) \<and>
   CreateStatistics example_env
     (example_stmt False ''s1'' [''a'', ''b'', ''c'', ''d'', ''e'', ''f'', ''g'', ''h'', ''a''] [])
     example_state \<noteq>
     Inl (Ereport ERRCODE_DUPLICATE_COLUMN
            ''duplicate column name in statistics definition'' []) \<and>
   \<not> distinct [''a'', ''b'', ''c'', ''d'', ''e'', ''f'', ''g'', ''h'', ''a'']"
  by (simp add: model_defs example_defs)

text \<open>
  Claim C5, amended. When the name is not taken, the relation is accepted, every name
  of the list passes the three checks of the loop and \<^verbatim>\<open>STATS_MAX_DIMENSIONS\<close> is at least
  1: a list of fewer than 2 names fails with \<^verbatim>\<open>ERRCODE_INVALID_OBJECT_DEFINITION\<close>; a list
  longer than \<^verbatim>\<open>STATS_MAX_DIMENSIONS\<close> fails with \<^verbatim>\<open>ERRCODE_TOO_MANY_COLUMNS\<close>; a list of
  at most \<^verbatim>\<open>STATS_MAX_DIMENSIONS\<close> names in which two have the same attribute number fails
  with \<^verbatim>\<open>ERRCODE_DUPLICATE_COLUMN\<close>, and so does every reordering of it.
\<close>

theorem arity_and_duplicates:
  assumes ns: "QualifiedNameGetCreationNamespace e (defnames stmt) = Inr (namespaceId, namestr)"
    and fresh: "\<not> SearchSysCacheExists2_STATEXTNAMENSP s (namestrcpy e namestr) namespaceId"
    and rel: "relation_openrv e (relation stmt) ShareUpdateExclusiveLock = Inr rel"
    and kind: "relkind_ok (rd_relkind rel)"
    and cols: "\<forall>k \<in> set (keys stmt). resolves_to e (rd_id rel) k (att k)"
    and room: "0 < STATS_MAX_DIMENSIONS e"
  shows "(length (keys stmt) < 2 \<longrightarrow>
            CreateStatistics e stmt s =
              Inl (Ereport ERRCODE_INVALID_OBJECT_DEFINITION
                     ''extended statistics require at least 2 columns'' [])) \<and>
         (STATS_MAX_DIMENSIONS e < length (keys stmt) \<longrightarrow>
            CreateStatistics e stmt s =
              Inl (Ereport ERRCODE_TOO_MANY_COLUMNS
                     ''cannot have more than %d columns in statistics''
                     [D (STATS_MAX_DIMENSIONS e)])) \<and>
         (length (keys stmt) \<le> STATS_MAX_DIMENSIONS e \<and>
          \<not> distinct (map (\<lambda>k. attnum (att k)) (keys stmt)) \<longrightarrow>
            (\<forall>keys'. mset keys' = mset (keys stmt) \<longrightarrow>
               CreateStatistics e (stmt\<lparr>keys := keys'\<rparr>) s =
                 Inl (Ereport ERRCODE_DUPLICATE_COLUMN
                        ''duplicate column name in statistics definition'' [])))"
proof (intro conjI impI allI)
  assume short: "length (keys stmt) < 2"
  with room have "length (keys stmt) \<le> STATS_MAX_DIMENSIONS e" by simp
  then have "resolve_keys e (rd_id rel) (keys stmt) [] =
               Inr (map (\<lambda>k. attnum (att k)) (keys stmt))"
    using resolve_keys_valid [of "keys stmt" e "rd_id rel" att "[]"] cols by simp
  with short show "CreateStatistics e stmt s =
              Inl (Ereport ERRCODE_INVALID_OBJECT_DEFINITION
                     ''extended statistics require at least 2 columns'' [])"
    using CreateStatistics_name_free [OF ns fresh] create_on_relation_stages [OF rel kind]
    by (simp add: normalize_keys_eq)
next
  assume long: "STATS_MAX_DIMENSIONS e < length (keys stmt)"
  have "\<forall>k \<in> set (take (Suc (STATS_MAX_DIMENSIONS e) - length ([] :: int16 list)) (keys stmt)).
          resolves_to e (rd_id rel) k (att k)"
    using cols by (auto dest: in_set_takeD)
  then have "resolve_keys e (rd_id rel) (keys stmt) [] =
          Inl (Ereport ERRCODE_TOO_MANY_COLUMNS
                 ''cannot have more than %d columns in statistics''
                 [D (STATS_MAX_DIMENSIONS e)])"
    using long by (intro resolve_keys_too_many) simp_all
  then show "CreateStatistics e stmt s =
              Inl (Ereport ERRCODE_TOO_MANY_COLUMNS
                     ''cannot have more than %d columns in statistics''
                     [D (STATS_MAX_DIMENSIONS e)])"
    using CreateStatistics_name_free [OF ns fresh] create_on_relation_stages [OF rel kind]
    by simp
next
  fix keys'
  assume dup: "length (keys stmt) \<le> STATS_MAX_DIMENSIONS e \<and>
          \<not> distinct (map (\<lambda>k. attnum (att k)) (keys stmt))"
    and p: "mset keys' = mset (keys stmt)"
  let ?stmt' = "stmt\<lparr>keys := keys'\<rparr>"
  from p have set_eq: "set keys' = set (keys stmt)" by (rule mset_eq_setD)
  from p have len_eq: "length keys' = length (keys stmt)" by (rule mset_eq_length)
  from p have m: "mset (map (\<lambda>k. attnum (att k)) keys') =
                  mset (map (\<lambda>k. attnum (att k)) (keys stmt))" by simp
  have nd: "\<not> distinct (map (\<lambda>k. attnum (att k)) keys')"
    using dup mset_eq_imp_distinct_iff [OF m] by simp
  then have two: "2 \<le> length keys'"
    by (cases keys') (simp, rename_tac k ks, case_tac ks, simp_all)
  have ns': "QualifiedNameGetCreationNamespace e (defnames ?stmt') = Inr (namespaceId, namestr)"
    using ns by simp
  have rel': "relation_openrv e (relation ?stmt') ShareUpdateExclusiveLock = Inr rel"
    using rel by simp
  have "resolve_keys e (rd_id rel) keys' [] = Inr (map (\<lambda>k. attnum (att k)) keys')"
    using resolve_keys_valid [of keys' e "rd_id rel" att "[]"] cols set_eq len_eq dup by simp
  with nd two show "CreateStatistics e ?stmt' s =
                 Inl (Ereport ERRCODE_DUPLICATE_COLUMN
                        ''duplicate column name in statistics definition'' [])"
    using CreateStatistics_name_free [OF ns' fresh] create_on_relation_stages [OF rel' kind]
    by (simp add: normalize_keys_eq)
qed

theorem arity_and_duplicates_witness:
  "CreateStatistics example_env (example_stmt False ''s1'' [''a''] []) example_state =
     Inl (Ereport ERRCODE_INVALID_OBJECT_DEFINITION
            ''extended statistics require at least 2 columns'' []) \<and>
   CreateStatistics example_env
     (example_stmt False ''s1'' [''a'', ''b'', ''c'', ''d'', ''e'', ''f'', ''g'', ''h'', ''i''] [])
     example_state =
     Inl (Ereport ERRCODE_TOO_MANY_COLUMNS
            ''cannot have more than %d columns in statistics'' [D 8]) \<and>
   CreateStatistics example_env (example_stmt False ''s1'' [''a'', ''b'', ''a''] []) example_state =
     Inl (Ereport ERRCODE_DUPLICATE_COLUMN
            ''duplicate column name in statistics definition'' []) \<and>
   CreateStatistics example_env (example_stmt False ''s1'' [''b'', ''a'', ''a''] []) example_state =
     Inl (Ereport ERRCODE_DUPLICATE_COLUMN
            ''duplicate column name in statistics definition'' [])"
proof -
  let ?rel = "\<lparr>rd_id = 16384, rd_relkind = RELKIND_RELATION, rd_relname = ''t''\<rparr>"
  let ?one = "example_stmt False ''s1'' [''a''] []"
  let ?nine = "example_stmt False ''s1''
                 [''a'', ''b'', ''c'', ''d'', ''e'', ''f'', ''g'', ''h'', ''i''] []"
  let ?dup = "example_stmt False ''s1'' [''a'', ''b'', ''a''] []"
  have room: "0 < STATS_MAX_DIMENSIONS example_env" by (simp add: example_env_def)
  have c1: "\<forall>k \<in> set (keys ?one). resolves_to example_env (rd_id ?rel) k (example_attribute k)"
    using example_resolves by (simp add: example_stmt_def)
  have c9: "\<forall>k \<in> set (keys ?nine). resolves_to example_env (rd_id ?rel) k (example_attribute k)"
    using example_resolves by (simp add: example_stmt_def)
  have cd: "\<forall>k \<in> set (keys ?dup). resolves_to example_env (rd_id ?rel) k (example_attribute k)"
    using example_resolves by (simp add: example_stmt_def)
  note t1 = arity_and_duplicates [OF example_name_free example_relation c1 room]
  note t9 = arity_and_duplicates [OF example_name_free example_relation c9 room]
  note td = arity_and_duplicates [OF example_name_free example_relation cd room]
  have "length (keys ?one) < 2" by (simp add: example_stmt_def)
  with t1 have r1: "CreateStatistics example_env ?one example_state =
     Inl (Ereport ERRCODE_INVALID_OBJECT_DEFINITION
            ''extended statistics require at least 2 columns'' [])"
    by blast
  have "STATS_MAX_DIMENSIONS example_env < length (keys ?nine)"
    by (simp add: example_stmt_def example_env_def)
  with t9 have r9: "CreateStatistics example_env ?nine example_state =
     Inl (Ereport ERRCODE_TOO_MANY_COLUMNS
            ''cannot have more than %d columns in statistics''
            [D (STATS_MAX_DIMENSIONS example_env)])"
    by blast
  have d: "length (keys ?dup) \<le> STATS_MAX_DIMENSIONS example_env \<and>
        \<not> distinct (map (\<lambda>k. attnum (example_attribute k)) (keys ?dup))"
    by (simp add: example_stmt_def example_env_def)
  with td have rd: "\<forall>keys'. mset keys' = mset (keys ?dup) \<longrightarrow>
               CreateStatistics example_env (?dup\<lparr>keys := keys'\<rparr>) example_state =
                 Inl (Ereport ERRCODE_DUPLICATE_COLUMN
                        ''duplicate column name in statistics definition'' [])"
    by blast
  have "mset [''a'', ''b'', ''a''] = mset (keys ?dup)" "mset [''b'', ''a'', ''a''] = mset (keys ?dup)"
    by (simp_all add: example_stmt_def)
  with rd have "CreateStatistics example_env (?dup\<lparr>keys := [''a'', ''b'', ''a'']\<rparr>) example_state =
                 Inl (Ereport ERRCODE_DUPLICATE_COLUMN
                        ''duplicate column name in statistics definition'' [])"
     "CreateStatistics example_env (?dup\<lparr>keys := [''b'', ''a'', ''a'']\<rparr>) example_state =
                 Inl (Ereport ERRCODE_DUPLICATE_COLUMN
                        ''duplicate column name in statistics definition'' [])"
    by blast+
  with r1 r9 show ?thesis by (simp add: example_stmt_def example_env_def)
qed

subsection \<open>The order of the steps\<close>

text \<open>
  Claim C6, as stated, places the name check after the column loop, and the
  invalidation after the dependencies. For a statement that reuses the name \<^verbatim>\<open>s0\<close> and
  names a column that does not exist, the error is the one of the name, although the
  column loop on the same list fails; and the trace of a creation ends with the
  invalidation followed by the two dependencies.
\<close>

theorem creation_order_counterexample:
  "CreateStatistics example_env (example_stmt False ''s0'' [''a'', ''nosuch''] []) example_state =
     Inl (Ereport ERRCODE_DUPLICATE_OBJECT ''statistics \"%s\" already exist'' [S ''s0'']) \<and>
   SearchSysCacheAttName example_env 16384 ''nosuch'' = None \<and>
   resolve_keys example_env 16384 [''a'', ''nosuch''] [] =
     Inl (Ereport ERRCODE_UNDEFINED_COLUMN
            ''column \"%s\" referenced in statistics does not exist'' [S ''nosuch'']) \<and>
   drop 4 (trace (snd (projr (CreateStatistics example_env
      (example_stmt False ''s1'' [''a'', ''b''] []) example_state)))) =
     [CacheInvalidateRelcache 16384,
      recordDependencyOn \<lparr>classId = 3381, objectId = 16501, objectSubId = 0\<rparr>
        \<lparr>classId = 1259, objectId = 16384, objectSubId = 0\<rparr> DEPENDENCY_AUTO,
      recordDependencyOn \<lparr>classId = 3381, objectId = 16501, objectSubId = 0\<rparr>
        \<lparr>classId = 2615, objectId = 2200, objectSubId = 0\<rparr> DEPENDENCY_AUTO]"
  by (simp add: model_defs example_defs)

text \<open>
  Claim C6, amended. Once the name is resolved, the steps are taken in this order, each
  one only if the ones before it have passed: the name check (which ends the call, with
  the error or with the notice, whatever the relation, the columns and the options
  are); opening the relation, and the check of its kind; the column loop; the arity
  check, the sort and the duplicate check; the options with the assertion; and then, in
  this order, the catalog insert, the relcache invalidation and the two dependencies.
  So a statement that reuses a name and names a column that does not exist gets the
  outcome of the name check.
\<close>

theorem creation_order:
  assumes ns: "QualifiedNameGetCreationNamespace e (defnames stmt) = Inr (namespaceId, namestr)"
  shows
    "(SearchSysCacheExists2_STATEXTNAMENSP s (namestrcpy e namestr) namespaceId \<longrightarrow>
        CreateStatistics e stmt s =
          (if if_not_exists stmt then
             Inr (InvalidObjectAddress,
                  emit [NOTICE ERRCODE_DUPLICATE_OBJECT
                          ''statistics \"%s\" already exist, skipping'' [S namestr]] s)
           else Inl (Ereport ERRCODE_DUPLICATE_OBJECT
                       ''statistics \"%s\" already exist'' [S namestr]))) \<and>
     (\<not> SearchSysCacheExists2_STATEXTNAMENSP s (namestrcpy e namestr) namespaceId \<longrightarrow>
        (\<forall>err. relation_openrv e (relation stmt) ShareUpdateExclusiveLock = Inl err \<longrightarrow>
           CreateStatistics e stmt s = Inl err) \<and>
        (\<forall>rel. relation_openrv e (relation stmt) ShareUpdateExclusiveLock = Inr rel \<and>
           \<not> relkind_ok (rd_relkind rel) \<longrightarrow>
           CreateStatistics e stmt s =
             Inl (Ereport ERRCODE_WRONG_OBJECT_TYPE
                    ''relation \"%s\" is not a table, foreign table, or materialized view''
                    [S (rd_relname rel)])) \<and>
        (\<forall>rel. relation_openrv e (relation stmt) ShareUpdateExclusiveLock = Inr rel \<and>
           relkind_ok (rd_relkind rel) \<longrightarrow>
           (\<forall>err. resolve_keys e (rd_id rel) (keys stmt) [] = Inl err \<longrightarrow>
              CreateStatistics e stmt s = Inl err) \<and>
           (\<forall>attnums. resolve_keys e (rd_id rel) (keys stmt) [] = Inr attnums \<longrightarrow>
              (\<forall>err. normalize_keys attnums = Inl err \<longrightarrow> CreateStatistics e stmt s = Inl err) \<and>
              (\<forall>sorted_attnums. normalize_keys attnums = Inr sorted_attnums \<longrightarrow>
                 (\<forall>err. select_kinds e (options stmt) = Inl err \<longrightarrow>
                    CreateStatistics e stmt s = Inl err) \<and>
                 (\<forall>types. select_kinds e (options stmt) = Inr types \<longrightarrow>
                    (\<exists>addr row. CreateStatistics e stmt s =
                       Inr (addr,
                            \<lparr>StatisticExtRelation = StatisticExtRelation s @ [row],
                             trace = trace s @
                               [LockRelation (rd_id rel) ShareUpdateExclusiveLock,
                                LockRelation (StatisticExtRelationId e) RowExclusiveLock,
                                CatalogTupleInsert row,
                                UnlockRelation (StatisticExtRelationId e) RowExclusiveLock,
                                CacheInvalidateRelcache (rd_id rel),
                                recordDependencyOn addr
                                  (ObjectAddressSet (RelationRelationId e) (rd_id rel))
                                  DEPENDENCY_AUTO,
                                recordDependencyOn addr
                                  (ObjectAddressSet (NamespaceRelationId e) namespaceId)
                                  DEPENDENCY_AUTO]\<rparr>) \<and>
                       stxkeys row = sorted_attnums \<and> stxkind row = types))))))"
proof (intro conjI impI allI)
  assume "SearchSysCacheExists2_STATEXTNAMENSP s (namestrcpy e namestr) namespaceId"
  with ns show "CreateStatistics e stmt s =
          (if if_not_exists stmt then
             Inr (InvalidObjectAddress,
                  emit [NOTICE ERRCODE_DUPLICATE_OBJECT
                          ''statistics \"%s\" already exist, skipping'' [S namestr]] s)
           else Inl (Ereport ERRCODE_DUPLICATE_OBJECT
                       ''statistics \"%s\" already exist'' [S namestr]))"
    by (rule CreateStatistics_name_taken)
next
  fix err
  assume "\<not> SearchSysCacheExists2_STATEXTNAMENSP s (namestrcpy e namestr) namespaceId"
    and "relation_openrv e (relation stmt) ShareUpdateExclusiveLock = Inl err"
  then show "CreateStatistics e stmt s = Inl err"
    using CreateStatistics_name_free [OF ns] by (simp add: create_on_relation_def Let_def)
next
  fix rel
  assume "\<not> SearchSysCacheExists2_STATEXTNAMENSP s (namestrcpy e namestr) namespaceId"
    and "relation_openrv e (relation stmt) ShareUpdateExclusiveLock = Inr rel \<and>
           \<not> relkind_ok (rd_relkind rel)"
  then show "CreateStatistics e stmt s =
             Inl (Ereport ERRCODE_WRONG_OBJECT_TYPE
                    ''relation \"%s\" is not a table, foreign table, or materialized view''
                    [S (rd_relname rel)])"
    using CreateStatistics_name_free [OF ns] by (simp add: create_on_relation_def Let_def)
next
  fix rel err
  assume "\<not> SearchSysCacheExists2_STATEXTNAMENSP s (namestrcpy e namestr) namespaceId"
    and "relation_openrv e (relation stmt) ShareUpdateExclusiveLock = Inr rel \<and>
           relkind_ok (rd_relkind rel)"
    and "resolve_keys e (rd_id rel) (keys stmt) [] = Inl err"
  then show "CreateStatistics e stmt s = Inl err"
    using CreateStatistics_name_free [OF ns] by (simp add: create_on_relation_stages)
next
  fix rel attnums err
  assume "\<not> SearchSysCacheExists2_STATEXTNAMENSP s (namestrcpy e namestr) namespaceId"
    and "relation_openrv e (relation stmt) ShareUpdateExclusiveLock = Inr rel \<and>
           relkind_ok (rd_relkind rel)"
    and "resolve_keys e (rd_id rel) (keys stmt) [] = Inr attnums"
    and "normalize_keys attnums = Inl err"
  then show "CreateStatistics e stmt s = Inl err"
    using CreateStatistics_name_free [OF ns] by (simp add: create_on_relation_stages)
next
  fix rel attnums sorted_attnums err
  assume "\<not> SearchSysCacheExists2_STATEXTNAMENSP s (namestrcpy e namestr) namespaceId"
    and "relation_openrv e (relation stmt) ShareUpdateExclusiveLock = Inr rel \<and>
           relkind_ok (rd_relkind rel)"
    and "resolve_keys e (rd_id rel) (keys stmt) [] = Inr attnums"
    and "normalize_keys attnums = Inr sorted_attnums"
    and "select_kinds e (options stmt) = Inl err"
  then show "CreateStatistics e stmt s = Inl err"
    using CreateStatistics_name_free [OF ns] by (simp add: create_on_relation_stages)
next
  fix rel attnums sorted_attnums types
  assume fresh: "\<not> SearchSysCacheExists2_STATEXTNAMENSP s (namestrcpy e namestr) namespaceId"
    and rel: "relation_openrv e (relation stmt) ShareUpdateExclusiveLock = Inr rel \<and>
           relkind_ok (rd_relkind rel)"
    and res: "resolve_keys e (rd_id rel) (keys stmt) [] = Inr attnums"
    and norm: "normalize_keys attnums = Inr sorted_attnums"
    and sel: "select_kinds e (options stmt) = Inr types"
  let ?addr = "ObjectAddressSet (StatisticExtRelationId e) (GetNewOid e (StatisticExtRelation s))"
  let ?row = "created_row e rel (namestrcpy e namestr) namespaceId sorted_attnums types s"
  have "CreateStatistics e stmt s =
          Inr (?addr,
               \<lparr>StatisticExtRelation = StatisticExtRelation s @ [?row],
                trace = trace s @
                  [LockRelation (rd_id rel) ShareUpdateExclusiveLock,
                   LockRelation (StatisticExtRelationId e) RowExclusiveLock,
                   CatalogTupleInsert ?row,
                   UnlockRelation (StatisticExtRelationId e) RowExclusiveLock,
                   CacheInvalidateRelcache (rd_id rel),
                   recordDependencyOn ?addr
                     (ObjectAddressSet (RelationRelationId e) (rd_id rel)) DEPENDENCY_AUTO,
                   recordDependencyOn ?addr
                     (ObjectAddressSet (NamespaceRelationId e) namespaceId) DEPENDENCY_AUTO]\<rparr>)"
    using CreateStatistics_name_free [OF ns fresh] rel res norm sel
    by (simp add: create_on_relation_stages write_catalog_eq)
  moreover have "stxkeys ?row = sorted_attnums" "stxkind ?row = types"
    by (simp_all add: created_row_fields)
  ultimately show "\<exists>addr row. CreateStatistics e stmt s =
                       Inr (addr,
                            \<lparr>StatisticExtRelation = StatisticExtRelation s @ [row],
                             trace = trace s @
                               [LockRelation (rd_id rel) ShareUpdateExclusiveLock,
                                LockRelation (StatisticExtRelationId e) RowExclusiveLock,
                                CatalogTupleInsert row,
                                UnlockRelation (StatisticExtRelationId e) RowExclusiveLock,
                                CacheInvalidateRelcache (rd_id rel),
                                recordDependencyOn addr
                                  (ObjectAddressSet (RelationRelationId e) (rd_id rel))
                                  DEPENDENCY_AUTO,
                                recordDependencyOn addr
                                  (ObjectAddressSet (NamespaceRelationId e) namespaceId)
                                  DEPENDENCY_AUTO]\<rparr>) \<and>
                       stxkeys row = sorted_attnums \<and> stxkind row = types"
    by blast
qed

theorem creation_order_witness:
  "CreateStatistics example_env (example_stmt True ''s0'' [''nosuch'', ''a''] []) example_state =
     Inr (InvalidObjectAddress,
          \<lparr>StatisticExtRelation = [example_row],
           trace = [NOTICE ERRCODE_DUPLICATE_OBJECT
                      ''statistics \"%s\" already exist, skipping'' [S ''s0'']]\<rparr>) \<and>
   CreateStatistics example_env
     (example_stmt False ''s1'' [''a'', ''nosuch''] [example_option ''mcv'' ''true''])
     example_state =
     Inl (Ereport ERRCODE_UNDEFINED_COLUMN
            ''column \"%s\" referenced in statistics does not exist'' [S ''nosuch'']) \<and>
   CreateStatistics example_env
     (example_stmt False ''s1'' [''a'', ''a''] [example_option ''mcv'' ''true''])
     example_state =
     Inl (Ereport ERRCODE_DUPLICATE_COLUMN
            ''duplicate column name in statistics definition'' []) \<and>
   CreateStatistics example_env
     (example_stmt False ''s1'' [''a'', ''b''] [example_option ''mcv'' ''true''])
     example_state =
     Inl (Ereport ERRCODE_SYNTAX_ERROR ''unrecognized STATISTICS option \"%s\"'' [S ''mcv'']) \<and>
   trace (snd (projr (CreateStatistics example_env
      (example_stmt False ''s1'' [''a'', ''b''] []) example_state))) =
     [LockRelation 16384 ShareUpdateExclusiveLock,
      LockRelation 3381 RowExclusiveLock,
      CatalogTupleInsert
        \<lparr>oid = 16501, stxrelid = 16384, stxname = ''s1'', stxnamespace = 2200,
         stxowner = 10, stxkeys = [1, 2],
         stxkind = [STATS_EXT_NDISTINCT, STATS_EXT_DEPENDENCIES],
         stxndistinct = None, stxdependencies = None\<rparr>,
      UnlockRelation 3381 RowExclusiveLock,
      CacheInvalidateRelcache 16384,
      recordDependencyOn \<lparr>classId = 3381, objectId = 16501, objectSubId = 0\<rparr>
        \<lparr>classId = 1259, objectId = 16384, objectSubId = 0\<rparr> DEPENDENCY_AUTO,
      recordDependencyOn \<lparr>classId = 3381, objectId = 16501, objectSubId = 0\<rparr>
        \<lparr>classId = 2615, objectId = 2200, objectSubId = 0\<rparr> DEPENDENCY_AUTO]"
proof -
  let ?rel = "\<lparr>rd_id = 16384, rd_relkind = RELKIND_RELATION, rd_relname = ''t''\<rparr>"
  let ?mcv = "[example_option ''mcv'' ''true'']"
  let ?taken = "example_stmt True ''s0'' [''nosuch'', ''a''] []"
  let ?nocol = "example_stmt False ''s1'' [''a'', ''nosuch''] ?mcv"
  let ?dup = "example_stmt False ''s1'' [''a'', ''a''] ?mcv"
  let ?opt = "example_stmt False ''s1'' [''a'', ''b''] ?mcv"
  have rel: "relation_openrv example_env (relation (example_stmt ine name ks opts))
               ShareUpdateExclusiveLock = Inr ?rel \<and> relkind_ok (rd_relkind ?rel)"
    for ine name ks opts
    using example_relation by simp
  have "CreateStatistics example_env ?taken example_state =
     Inr (InvalidObjectAddress,
          emit [NOTICE ERRCODE_DUPLICATE_OBJECT
                  ''statistics \"%s\" already exist, skipping'' [S ''s0'']] example_state)"
    using creation_order [OF example_name_taken(1) [of True "[''nosuch'', ''a'']" "[]"], of example_state]
      example_name_taken(2)
    by (simp add: example_stmt_def)
  then have r1: "CreateStatistics example_env ?taken example_state =
     Inr (InvalidObjectAddress,
          \<lparr>StatisticExtRelation = [example_row],
           trace = [NOTICE ERRCODE_DUPLICATE_OBJECT
                      ''statistics \"%s\" already exist, skipping'' [S ''s0'']]\<rparr>)"
    by (simp add: emit_def example_state_def)
  have k2: "resolve_keys example_env (rd_id ?rel) (keys ?nocol) [] =
     Inl (Ereport ERRCODE_UNDEFINED_COLUMN
            ''column \"%s\" referenced in statistics does not exist'' [S ''nosuch''])"
    by (simp add: model_defs example_defs)
  have r2: "CreateStatistics example_env ?nocol example_state =
     Inl (Ereport ERRCODE_UNDEFINED_COLUMN
            ''column \"%s\" referenced in statistics does not exist'' [S ''nosuch''])"
    using creation_order [OF example_name_free(1) [of False "[''a'', ''nosuch'']" ?mcv], of example_state]
      example_name_free(2) rel k2
    by blast
  have k3: "resolve_keys example_env (rd_id ?rel) (keys ?dup) [] = Inr [1, 1]"
    by (simp add: model_defs example_defs)
  have n3: "normalize_keys [1, 1] =
     Inl (Ereport ERRCODE_DUPLICATE_COLUMN
            ''duplicate column name in statistics definition'' [])"
    by (simp add: model_defs)
  have r3: "CreateStatistics example_env ?dup example_state =
     Inl (Ereport ERRCODE_DUPLICATE_COLUMN
            ''duplicate column name in statistics definition'' [])"
    using creation_order [OF example_name_free(1) [of False "[''a'', ''a'']" ?mcv], of example_state]
      example_name_free(2) rel k3 n3
    by blast
  have k4: "resolve_keys example_env (rd_id ?rel) (keys ?opt) [] = Inr [1, 2]"
    by (simp add: model_defs example_defs)
  have n4: "normalize_keys [1, 2] = Inr [1, 2]"
    by (simp add: model_defs)
  have o4: "select_kinds example_env (options ?opt) =
     Inl (Ereport ERRCODE_SYNTAX_ERROR ''unrecognized STATISTICS option \"%s\"'' [S ''mcv''])"
    by (simp add: model_defs example_defs)
  have r4: "CreateStatistics example_env ?opt example_state =
     Inl (Ereport ERRCODE_SYNTAX_ERROR ''unrecognized STATISTICS option \"%s\"'' [S ''mcv''])"
    using creation_order [OF example_name_free(1) [of False "[''a'', ''b'']" ?mcv], of example_state]
      example_name_free(2) rel k4 n4 o4
    by blast
  from r1 r2 r3 r4 show ?thesis by (simp add: example_create)
qed

end
